theory Spec2Isabelle
  imports Main "HOL-Library.Word"
begin

section \<open>The subgraph query endpoint of the indexer service\<close>

text \<open>
  This theory embeds the request handler that \<open>createServer\<close>
  (\<open>packages/indexer-service/src/server/index.ts\<close>) registers for
  \<open>POST /subgraphs/id/:id\<close>. The handler is an \<open>async\<close> function: it reads the
  request, talks to the injected query processor and writes to the Express response
  object. Here it is a function from the request to the list of effects it performs, in
  order, together with the fate of the promise it returns.
\<close>

subsection \<open>Strings and bytes of the runtime\<close>

text \<open>
  A \<open>Buffer\<close> is a list of bytes. A JavaScript string is a list of UTF-16 code
  units; \<open>query\<close> is such a string. Header values, addresses and messages are opaque
  text and are kept as HOL strings.
\<close>

type_synonym byte = "8 word"
type_synonym jsstring = "16 word list"

text \<open>
  \<open>Buffer.prototype.toString()\<close> decodes UTF-8. The decoder below is the state
  machine of the Encoding Standard: the first argument counts the continuation bytes
  that are still expected, \<open>cp\<close> is the code point collected so far, and the next byte
  has to lie in \<open>lo .. hi\<close>. An ill-formed sequence yields U+FFFD and the offending
  byte is read again from the initial state; input ending inside a sequence yields
  U+FFFD. The byte-order mark is kept.
\<close>

fun utf8_dec :: "nat \<Rightarrow> nat \<Rightarrow> nat \<Rightarrow> nat \<Rightarrow> byte list \<Rightarrow> nat list" where
  "utf8_dec 0 cp lo hi [] = []"
| "utf8_dec (Suc k) cp lo hi [] = [0xFFFD]"
| "utf8_dec 0 cp lo hi (b # bs) =
     (let v = unat b in
      if v \<le> 0x7F then v # utf8_dec 0 0 0x80 0xBF bs
      else if 0xC2 \<le> v \<and> v \<le> 0xDF then utf8_dec 1 (v mod 32) 0x80 0xBF bs
      else if 0xE0 \<le> v \<and> v \<le> 0xEF then
        utf8_dec 2 (v mod 16) (if v = 0xE0 then 0xA0 else 0x80)
          (if v = 0xED then 0x9F else 0xBF) bs
      else if 0xF0 \<le> v \<and> v \<le> 0xF4 then
        utf8_dec 3 (v mod 8) (if v = 0xF0 then 0x90 else 0x80)
          (if v = 0xF4 then 0x8F else 0xBF) bs
      else 0xFFFD # utf8_dec 0 0 0x80 0xBF bs)"
| "utf8_dec (Suc k) cp lo hi (b # bs) =
     (let v = unat b in
      if v < lo \<or> hi < v then 0xFFFD # utf8_dec 0 0 0x80 0xBF (b # bs)
      else if k = 0 then (cp * 64 + v mod 64) # utf8_dec 0 0 0x80 0xBF bs
      else utf8_dec k (cp * 64 + v mod 64) 0x80 0xBF bs)"

definition utf8_decode :: "byte list \<Rightarrow> nat list" where
  "utf8_decode bs = utf8_dec 0 0 0x80 0xBF bs"

text \<open>A decoded code point above U+FFFF is stored as a surrogate pair.\<close>

definition utf16_units :: "nat \<Rightarrow> jsstring" where
  "utf16_units c =
     (if c < 0x10000 then [of_nat c]
      else [of_nat (0xD800 + (c - 0x10000) div 1024),
            of_nat (0xDC00 + (c - 0x10000) mod 1024)])"

definition Buffer_toString :: "byte list \<Rightarrow> jsstring" where
  "Buffer_toString bs = concat (map utf16_units (utf8_decode bs))"

text \<open>
  \<open>TextEncoder.encode\<close> first reads the string as a sequence of scalar values (a
  surrogate without its partner becomes U+FFFD) and then writes each one in UTF-8.
\<close>

fun scalar_values :: "jsstring \<Rightarrow> nat list" where
  "scalar_values [] = []"
| "scalar_values [u] =
     (if 0xD800 \<le> unat u \<and> unat u \<le> 0xDFFF then [0xFFFD] else [unat u])"
| "scalar_values (u # v # us) =
     (if 0xD800 \<le> unat u \<and> unat u \<le> 0xDBFF then
        (if 0xDC00 \<le> unat v \<and> unat v \<le> 0xDFFF
         then (0x10000 + (unat u - 0xD800) * 1024 + (unat v - 0xDC00)) # scalar_values us
         else 0xFFFD # scalar_values (v # us))
      else if 0xDC00 \<le> unat u \<and> unat u \<le> 0xDFFF then 0xFFFD # scalar_values (v # us)
      else unat u # scalar_values (v # us))"

definition utf8_bytes :: "nat \<Rightarrow> byte list" where
  "utf8_bytes c =
     (if c < 0x80 then [of_nat c]
      else if c < 0x800 then [of_nat (0xC0 + c div 64), of_nat (0x80 + c mod 64)]
      else if c < 0x10000 then
        [of_nat (0xE0 + c div 4096), of_nat (0x80 + c div 64 mod 64),
         of_nat (0x80 + c mod 64)]
      else
        [of_nat (0xF0 + c div 262144), of_nat (0x80 + c div 4096 mod 64),
         of_nat (0x80 + c div 64 mod 64), of_nat (0x80 + c mod 64)])"

definition utf8_encode :: "nat list \<Rightarrow> byte list" where
  "utf8_encode cs = concat (map utf8_bytes cs)"

definition TextEncoder_encode :: "jsstring \<Rightarrow> byte list" where
  "TextEncoder_encode s = utf8_encode (scalar_values s)"

text \<open>
  Unicode text is a list of scalar values: code points up to U+10FFFF that are not
  surrogates. A byte list is well-formed UTF-8 when it is the encoding of such a text.
\<close>

definition scalar :: "nat \<Rightarrow> bool" where
  "scalar c \<longleftrightarrow> c < 0xD800 \<or> (0xE000 \<le> c \<and> c < 0x110000)"

subsection \<open>The request\<close>

text \<open>
  A header read from \<open>req.headers\<close> is \<open>undefined\<close>, a string, or an array of
  strings; \<open>req.headers\<close> is a map from lower-case names to the latter two.

  The route runs \<open>bodyParser.raw({ type: 'application/json' })\<close> before the handler.
  It leaves the body in \<open>req.body\<close> as a \<open>Buffer\<close> when it has read one, and leaves
  the empty object \<open>{}\<close> there when the request has no body or another content type.
\<close>

datatype header_value = Str string | Arr "string list"

datatype req_body = Buffer "byte list" | EmptyObject

record request =
  req_params_id :: string
  req_body :: req_body
  req_headers :: "string \<rightharpoonup> header_value"
  req_ip :: string

text \<open>\<open>req.body.toString()\<close>: \<open>{}.toString()\<close> is the text \<open>[object Object]\<close>.\<close>

fun body_toString :: "req_body \<Rightarrow> jsstring" where
  "body_toString (Buffer bs) = Buffer_toString bs"
| "body_toString EmptyObject = map (\<lambda>c. of_nat (of_char c)) ''[object Object]''"

subsection \<open>The query processor and the other collaborators\<close>

text \<open>
  Modelled from the spec: the interface \<open>QueryProcessor\<close> and the types of its
  arguments and results are declared in \<open>../types\<close>, which is not among the sources.
  The fields below are the ones the handler writes and reads; the shapes are those of
  the collaborator interfaces in the specification:
  \<open>addPaidQuery({subgraphId, paymentId, query, requestCID})\<close> and
  \<open>addFreeQuery({subgraphId, stateChannelId, query, requestCID})\<close> return
  \<open>{status?, result}\<close> or throw \<open>{status?, message}\<close>. The optional \<open>status\<close> is
  \<open>None\<close> when the field is not set. The handler awaits one call of the processor at
  most, so the processor is a pair of functions from the query to the outcome of the
  call.
\<close>

record 'sid PaidQuery =
  pq_subgraphDeploymentID :: 'sid
  pq_paymentId :: string
  pq_query :: jsstring
  pq_requestCID :: string

record 'sid FreeQuery =
  fq_subgraphDeploymentID :: 'sid
  fq_stateChannelID :: string
  fq_query :: jsstring
  fq_requestCID :: string

record 'r QueryResponse =
  status :: "int option"
  result :: 'r

record thrown =
  err_status :: "int option"
  err_message :: string

datatype 'r outcome = Returns "'r QueryResponse" | Throws thrown

record ('sid, 'r) QueryProcessor =
  addPaidQuery :: "'sid PaidQuery \<Rightarrow> 'r outcome"
  addFreeQuery :: "'sid FreeQuery \<Rightarrow> 'r outcome"

record ('sid, 'r) ServerOptions =
  queryProcessor :: "('sid, 'r) QueryProcessor"
  whitelist :: "string list"

text \<open>
  Two functions come from libraries and are parameters here: the constructor of
  \<open>SubgraphDeploymentID\<close> (\<open>@graphprotocol/common-ts\<close>), which reads the id and
  either returns the object or throws (\<open>Inl\<close> with the message of the error), and
  \<open>utils.keccak256\<close> (\<open>ethers\<close>), which maps bytes to a hex string.
\<close>

record 'sid externals =
  newSubgraphDeploymentID :: "string \<Rightarrow> string + 'sid"
  keccak256 :: "byte list \<Rightarrow> string"


subsection \<open>Effects of the handler\<close>

text \<open>
  The effects of a run are its calls of \<open>logger.info\<close> and \<open>logger.error\<close>, its
  calls of the query processor and the responses it sends. A log message is kept as
  its template with the values that are put into it.

  A response is what the server writes: the status line, the media type of the
  \<open>Content-Type\<close> header when the header is there, and the payload when a body is
  written.
\<close>

datatype level = Info | Error

datatype 'sid log_message =
    InvalidPaymentID 'sid
  | MissingPaymentID 'sid
  | ReceivedPaidQuery 'sid string
  | FailedPaidQuery thrown
  | ReceivedFreeQuery 'sid
  | InvalidStateChannelID 'sid
  | FailedFreeQuery thrown

datatype 'r payload = ErrorObject string | Result 'r

record 'r response =
  resp_status :: int
  resp_contentType :: "string option"
  resp_payload :: "'r payload option"

datatype ('sid, 'r) event =
    Log level "'sid log_message"
  | CallPaid "'sid PaidQuery"
  | CallFree "'sid FreeQuery"
  | Send "'r response"

datatype promise = Resolved | Rejected string

record ('sid, 'r) run =
  events :: "('sid, 'r) event list"
  promise :: promise

text \<open>The run that performs \<open>es\<close> and then goes on as \<open>r\<close>.\<close>

definition preceded :: "('sid, 'r) event list \<Rightarrow> ('sid, 'r) run \<Rightarrow> ('sid, 'r) run" where
  "preceded es r = \<lparr>events = es @ events r, promise = promise r\<rparr>"

subsection \<open>Writing the response\<close>

text \<open>\<open>x || d\<close> for an optional number \<open>x\<close>: \<open>undefined\<close> and \<open>0\<close> are falsy.\<close>

fun or_default :: "int option \<Rightarrow> int \<Rightarrow> int" where
  "or_default None d = d"
| "or_default (Some n) d = (if n = 0 then d else n)"

text \<open>
  \<open>res.status(s).contentType('application/json').send(p)\<close>. \<open>status\<close> stores \<open>s\<close>
  unchecked and \<open>contentType\<close> sets the header. \<open>send\<close> removes the content type and
  the body when the stored status is 204 or 304, and hands the rest to the \<open>end\<close>
  method of the server response, which writes the head first: \<open>writeHead\<close> reads the
  status as a 32-bit integer (\<open>statusCode |= 0\<close>) and throws a \<open>RangeError\<close> when
  that is below 100 or above 999. Nothing has been sent then, and the response can still
  be written. Otherwise the response goes out, without a body when the status admits
  none (1xx, 204, 304). This is Express 4.17; from 4.18 on \<open>send\<close> empties the body
  for status 205 as well, which is why C6 below leaves that status out.

  The error has no \<open>status\<close>; its message names the status as JavaScript prints the
  number.
\<close>

definition to_int32 :: "int \<Rightarrow> int" where
  "to_int32 n = (n + 2147483648) mod 4294967296 - 2147483648"

definition valid_status :: "int \<Rightarrow> bool" where
  "valid_status s \<longleftrightarrow> 100 \<le> to_int32 s \<and> to_int32 s \<le> 999"

fun decimal_digits :: "nat \<Rightarrow> string" where
  "decimal_digits n =
     (if n < 10 then [''0123456789'' ! n]
      else decimal_digits (n div 10) @ [''0123456789'' ! (n mod 10)])"

declare decimal_digits.simps [simp del]

definition number_toString :: "int \<Rightarrow> string" where
  "number_toString n =
     (if n < 0 then CHR ''-'' # decimal_digits (nat (- n)) else decimal_digits (nat n))"

definition invalid_status_code :: "int \<Rightarrow> thrown" where
  "invalid_status_code s =
     \<lparr>err_status = None, err_message = ''Invalid status code: '' @ number_toString s\<rparr>"

definition json_response :: "int \<Rightarrow> 'r payload \<Rightarrow> 'r response" where
  "json_response s p =
     \<lparr>resp_status = to_int32 s,
      resp_contentType = (if s = 204 \<or> s = 304 then None else Some ''application/json''),
      resp_payload =
        (if to_int32 s < 200 \<or> to_int32 s = 204 \<or> to_int32 s = 304 then None else Some p)\<rparr>"

definition send_json :: "int \<Rightarrow> 'r payload \<Rightarrow> ('sid, 'r) event" where
  "send_json s p = Send (json_response s p)"

definition write_json :: "int \<Rightarrow> 'r payload \<Rightarrow> thrown + ('sid, 'r) event" where
  "write_json s p = (if valid_status s then Inr (send_json s p) else Inl (invalid_status_code s))"

text \<open>
  A write that stands outside every \<open>try\<close> block ends the run: when it throws, the
  exception leaves the \<open>async\<close> handler and rejects its promise.
\<close>

definition respond :: "int \<Rightarrow> 'r payload \<Rightarrow> ('sid, 'r) run" where
  "respond s p =
     (case write_json s p of
        Inr sent \<Rightarrow> \<lparr>events = [sent], promise = Resolved\<rparr>
      | Inl e \<Rightarrow> \<lparr>events = [], promise = Rejected (err_message e)\<rparr>)"

subsection \<open>The handler\<close>

text \<open>
  The two \<open>try\<close> statements of the handler (lines 97 to 114 and 130 to 147) differ in
  the operation they await and in the text they log. After the call, each does what
  \<open>answer\<close> does with the outcome of the call: the \<open>try\<close> block writes the result,
  and an exception, thrown by the processor or by that write, is handled by the
  \<open>catch\<close> block, which logs it and writes the error. The write in the \<open>catch\<close>
  block is not protected.
\<close>

definition caught :: "(thrown \<Rightarrow> 'sid log_message) \<Rightarrow> thrown \<Rightarrow> ('sid, 'r) run" where
  "caught failed e =
     preceded [Log Error (failed e)]
       (respond (or_default (err_status e) 500) (ErrorObject (err_message e)))"

definition answer :: "(thrown \<Rightarrow> 'sid log_message) \<Rightarrow> 'r outcome \<Rightarrow> ('sid, 'r) run" where
  "answer failed out =
     (case out of
        Returns response \<Rightarrow>
          (case write_json (or_default (status response) 200) (Result (result response)) of
             Inr sent \<Rightarrow> \<lparr>events = [sent], promise = Resolved\<rparr>
           | Inl e \<Rightarrow> caught failed e)
      | Throws e \<Rightarrow> caught failed e)"

text \<open>
  The paid branch and the free branch of the handler (lines 93 to 148), and the handler
  itself. An exception that the constructor throws at line 62 is outside every \<open>try\<close>
  block: it ends the run and rejects the promise of the \<open>async\<close> function. The early
  \<open>return res...\<close> statements end the run.
\<close>

definition paid_query ::
  "'sid externals \<Rightarrow> ('sid, 'r) ServerOptions \<Rightarrow> 'sid \<Rightarrow> string \<Rightarrow> jsstring
    \<Rightarrow> ('sid, 'r) run" where
  "paid_query ext opts subgraphDeploymentID paymentId query =
     (let q = \<lparr>pq_subgraphDeploymentID = subgraphDeploymentID,
               pq_paymentId = paymentId,
               pq_query = query,
               pq_requestCID = keccak256 ext (TextEncoder_encode query)\<rparr>
      in preceded [Log Info (ReceivedPaidQuery subgraphDeploymentID paymentId), CallPaid q]
           (answer FailedPaidQuery (addPaidQuery (queryProcessor opts) q)))"

definition free_query ::
  "'sid externals \<Rightarrow> ('sid, 'r) ServerOptions \<Rightarrow> 'sid \<Rightarrow> header_value option \<Rightarrow> jsstring
    \<Rightarrow> ('sid, 'r) run" where
  "free_query ext opts subgraphDeploymentID stateChannelID query =
     preceded [Log Info (ReceivedFreeQuery subgraphDeploymentID)]
       (case stateChannelID of
          Some (Str channel) \<Rightarrow>
            (let q = \<lparr>fq_subgraphDeploymentID = subgraphDeploymentID,
                      fq_stateChannelID = channel,
                      fq_query = query,
                      fq_requestCID = keccak256 ext (TextEncoder_encode query)\<rparr>
             in preceded [CallFree q]
                  (answer FailedFreeQuery (addFreeQuery (queryProcessor opts) q)))
        | _ \<Rightarrow>
            preceded [Log Info (InvalidStateChannelID subgraphDeploymentID)]
              (respond 402 (ErrorObject ''Invalid X-Graph-State-Channel-ID provided'')))"

definition handle_query ::
  "'sid externals \<Rightarrow> ('sid, 'r) ServerOptions \<Rightarrow> request \<Rightarrow> ('sid, 'r) run" where
  "handle_query ext opts req =
     (let id = req_params_id req;
          query = body_toString (req_body req)
      in case newSubgraphDeploymentID ext id of
           Inl err \<Rightarrow> \<lparr>events = [], promise = Rejected err\<rparr>
         | Inr subgraphDeploymentID \<Rightarrow>
             (let paymentId = req_headers req ''x-graph-payment-id'' in
              case paymentId of
                Some (Arr vs) \<Rightarrow>
                  preceded [Log Info (InvalidPaymentID subgraphDeploymentID)]
                    (respond 402 (ErrorObject ''Invalid X-Graph-Payment-ID provided''))
              | _ \<Rightarrow>
                  (let paymentRequired = (req_ip req \<notin> set (whitelist opts)) in
                   if paymentRequired \<and> paymentId = None then
                     preceded [Log Info (MissingPaymentID subgraphDeploymentID)]
                       (respond 402 (ErrorObject ''No X-Graph-Payment-ID provided''))
                   else
                     (case paymentId of
                        Some (Str pid) \<Rightarrow>
                          paid_query ext opts subgraphDeploymentID pid query
                      | _ \<Rightarrow>
                          free_query ext opts subgraphDeploymentID
                            (req_headers req ''x-graph-state-channel-id'') query))))"

text \<open>What a run did: the responses it sent and the calls it made.\<close>

fun responses :: "('sid, 'r) event list \<Rightarrow> 'r response list" where
  "responses [] = []"
| "responses (Send r # es) = r # responses es"
| "responses (e # es) = responses es"

fun paid_calls :: "('sid, 'r) event list \<Rightarrow> 'sid PaidQuery list" where
  "paid_calls [] = []"
| "paid_calls (CallPaid q # es) = q # paid_calls es"
| "paid_calls (e # es) = paid_calls es"

fun free_calls :: "('sid, 'r) event list \<Rightarrow> 'sid FreeQuery list" where
  "free_calls [] = []"
| "free_calls (CallFree q # es) = q # free_calls es"
| "free_calls (e # es) = free_calls es"

text \<open>The content identifiers handed to the query processor, over both operations.\<close>

fun request_cids :: "('sid, 'r) event list \<Rightarrow> string list" where
  "request_cids [] = []"
| "request_cids (CallPaid q # es) = pq_requestCID q # request_cids es"
| "request_cids (CallFree q # es) = fq_requestCID q # request_cids es"
| "request_cids (e # es) = request_cids es"

text \<open>
  A run has taken the free path when it has entered the \<open>else\<close> branch at line 115,
  whose first statement logs that a free query was received.
\<close>

fun received_free_query :: "('sid, 'r) event \<Rightarrow> bool" where
  "received_free_query (Log Info (ReceivedFreeQuery sid)) = True"
| "received_free_query e = False"

definition takes_free_path :: "('sid, 'r) run \<Rightarrow> bool" where
  "takes_free_path r \<longleftrightarrow> list_ex received_free_query (events r)"

subsection \<open>The constructor of the deployment ID\<close>

text \<open>
  The constructor of \<open>SubgraphDeploymentID\<close> in the version of the library that the
  service runs with keeps the hex form of the id as the value of the object. An id that
  starts with \<open>Qm\<close> is read as a base58 multihash: it is decoded, the two bytes of the
  multihash prefix are dropped and the rest is written in hex. Any other id is kept as
  it is. \<open>base58.decode\<close> throws when the text holds a character outside the alphabet;
  that is the only way for the constructor to throw.

  The decoder reads the text as a number in base 58, writes it in base 256 with the most
  significant byte first, and puts one zero byte in front for every leading \<open>1\<close>.
\<close>

definition base58_alphabet :: string where
  "base58_alphabet = ''123456789ABCDEFGHJKLMNPQRSTUVWXYZabcdefghijkmnopqrstuvwxyz''"

primrec position :: "'a \<Rightarrow> 'a list \<Rightarrow> nat option" where
  "position x [] = None"
| "position x (y # ys) = (if x = y then Some 0 else map_option Suc (position x ys))"

fun base58_number :: "string \<Rightarrow> nat \<Rightarrow> nat option" where
  "base58_number [] n = Some n"
| "base58_number (c # cs) n =
     (case position c base58_alphabet of
        None \<Rightarrow> None
      | Some d \<Rightarrow> base58_number cs (n * 58 + d))"

fun big_endian :: "nat \<Rightarrow> byte list" where
  "big_endian n = (if n = 0 then [] else big_endian (n div 256) @ [of_nat (n mod 256)])"

declare big_endian.simps [simp del]

definition base58_decode :: "string \<Rightarrow> byte list option" where
  "base58_decode s =
     (case base58_number s 0 of
        None \<Rightarrow> None
      | Some n \<Rightarrow> Some (replicate (length (takeWhile (\<lambda>c. c = CHR ''1'') s)) 0 @ big_endian n))"

definition hexlify :: "byte list \<Rightarrow> string" where
  "hexlify bs =
     ''0x'' @ concat (map (\<lambda>b. [''0123456789abcdef'' ! (unat b div 16),
                                 ''0123456789abcdef'' ! (unat b mod 16)]) bs)"

definition new_SubgraphDeploymentID :: "string \<Rightarrow> string + string" where
  "new_SubgraphDeploymentID s =
     (if take 2 s = ''Qm'' then
        (case base58_decode s of
           None \<Rightarrow> Inl ''Non-base58 character''
         | Some bs \<Rightarrow> Inr (hexlify (drop 2 bs)))
      else Inr s)"

subsection \<open>An example deployment\<close>

text \<open>
  The theorems below hold for every constructor, hash function, query processor and
  whitelist. To run the handler on concrete requests, this section fixes one of each:
  the constructor of the library, and, in place of the hash, \<open>hexlify\<close>, which writes
  the bytes out in hex: an identifier then shows which bytes were hashed.
\<close>

definition example_ext :: "string externals" where
  "example_ext = \<lparr>newSubgraphDeploymentID = new_SubgraphDeploymentID, keccak256 = hexlify\<rparr>"

text \<open>
  The example processor rejects every paid query with status 429 and answers every free
  query without setting a status; one address is whitelisted.
\<close>

definition example_opts :: "(string, string) ServerOptions" where
  "example_opts =
     \<lparr>queryProcessor =
        \<lparr>addPaidQuery = (\<lambda>q. Throws \<lparr>err_status = Some 429, err_message = ''rate limited''\<rparr>),
         addFreeQuery = (\<lambda>q. Returns \<lparr>status = None, result = ''{data: []}''\<rparr>)\<rparr>,
      whitelist = [''10.0.0.1'']\<rparr>"

text \<open>A processor that sets the status to 0, on success and on failure.\<close>

definition zero_status_opts :: "(string, string) ServerOptions" where
  "zero_status_opts =
     \<lparr>queryProcessor =
        \<lparr>addPaidQuery = (\<lambda>q. Returns \<lparr>status = Some 0, result = ''{data: []}''\<rparr>),
         addFreeQuery = (\<lambda>q. Throws \<lparr>err_status = Some 0, err_message = ''failed''\<rparr>)\<rparr>,
      whitelist = [''10.0.0.1'']\<rparr>"

text \<open>The same with the two operations exchanged.\<close>

definition swapped_zero_status_opts :: "(string, string) ServerOptions" where
  "swapped_zero_status_opts =
     \<lparr>queryProcessor =
        \<lparr>addPaidQuery = (\<lambda>q. Throws \<lparr>err_status = Some 0, err_message = ''failed''\<rparr>),
         addFreeQuery = (\<lambda>q. Returns \<lparr>status = Some 0, result = ''{data: []}''\<rparr>)\<rparr>,
      whitelist = [''10.0.0.1'']\<rparr>"

text \<open>A processor that sets the status to 1000, which is no status code.\<close>

definition invalid_status_opts :: "(string, string) ServerOptions" where
  "invalid_status_opts =
     \<lparr>queryProcessor =
        \<lparr>addPaidQuery = (\<lambda>q. Throws \<lparr>err_status = Some 1000, err_message = ''failed''\<rparr>),
         addFreeQuery = (\<lambda>q. Returns \<lparr>status = Some 1000, result = ''{data: []}''\<rparr>)\<rparr>,
      whitelist = [''10.0.0.1'']\<rparr>"

text \<open>A processor that answers with 204 and fails with 304.\<close>

definition no_content_opts :: "(string, string) ServerOptions" where
  "no_content_opts =
     \<lparr>queryProcessor =
        \<lparr>addPaidQuery = (\<lambda>q. Throws \<lparr>err_status = Some 304, err_message = ''failed''\<rparr>),
         addFreeQuery = (\<lambda>q. Returns \<lparr>status = Some 204, result = ''{data: []}''\<rparr>)\<rparr>,
      whitelist = [''10.0.0.1'']\<rparr>"

definition example_id :: string where
  "example_id = ''0x4d79207375626772617068206973207468652062657374207375626772617068''"

definition ascii_bytes :: "string \<Rightarrow> byte list" where
  "ascii_bytes s = utf8_encode (map of_char s)"

text \<open>A whitelisted caller with a state channel and no payment.\<close>

definition free_request :: request where
  "free_request =
     \<lparr>req_params_id = example_id,
      req_body = Buffer (ascii_bytes ''{ tokens { id } }''),
      req_headers = [''x-graph-state-channel-id'' \<mapsto> Str ''sc-1''],
      req_ip = ''10.0.0.1''\<rparr>"

text \<open>A caller outside the whitelist who pays.\<close>

definition paid_request :: request where
  "paid_request =
     \<lparr>req_params_id = example_id,
      req_body = Buffer (ascii_bytes ''{ pools { id } }''),
      req_headers = [''x-graph-payment-id'' \<mapsto> Str ''pay-42''],
      req_ip = ''192.0.2.7''\<rparr>"

text \<open>A whitelisted caller who pays.\<close>

definition trusted_paid_request :: request where
  "trusted_paid_request = paid_request\<lparr>req_ip := ''10.0.0.1''\<rparr>"

text \<open>The payment header sent twice.\<close>

definition duplicated_payment_request :: request where
  "duplicated_payment_request =
     paid_request\<lparr>req_headers := [''x-graph-payment-id'' \<mapsto> Arr [''pay-42'', ''pay-43'']]\<rparr>"

text \<open>A caller outside the whitelist without any header.\<close>

definition bare_request :: request where
  "bare_request = paid_request\<lparr>req_headers := Map.empty\<rparr>"

text \<open>A whitelisted caller without any header, and one with the channel header twice.\<close>

definition trusted_bare_request :: request where
  "trusted_bare_request = free_request\<lparr>req_headers := Map.empty\<rparr>"

definition duplicated_channel_request :: request where
  "duplicated_channel_request =
     free_request\<lparr>req_headers := [''x-graph-state-channel-id'' \<mapsto> Arr [''sc-1'', ''sc-2'']]\<rparr>"

text \<open>Paid requests whose body is a single byte that no UTF-8 text contains.\<close>

definition ff_request :: request where
  "ff_request = paid_request\<lparr>req_body := Buffer [0xFF]\<rparr>"

definition fe_request :: request where
  "fe_request = paid_request\<lparr>req_body := Buffer [0xFE]\<rparr>"

text \<open>
  A paid request to the path \<open>/subgraphs/id/Qm0\<close>: the id starts with \<open>Qm\<close>, and \<open>0\<close>
  is no base58 digit.
\<close>

definition invalid_id_request :: request where
  "invalid_id_request = paid_request\<lparr>req_params_id := ''Qm0''\<rparr>"

text \<open>The same path with the payment header sent twice, and without any header.\<close>

definition invalid_id_duplicated_payment_request :: request where
  "invalid_id_duplicated_payment_request =
     duplicated_payment_request\<lparr>req_params_id := ''Qm0''\<rparr>"

definition invalid_id_bare_request :: request where
  "invalid_id_bare_request = bare_request\<lparr>req_params_id := ''Qm0''\<rparr>"

text \<open>A paid request whose body is UTF-8 text beyond ASCII: \<open>{\<close>, U+00E9, U+20AC, U+1F600, \<open>}\<close>.\<close>

definition unicode_request :: request where
  "unicode_request =
     paid_request\<lparr>req_body := Buffer (utf8_encode [0x7B, 0xE9, 0x20AC, 0x1F600, 0x7D])\<rparr>"

text \<open>The queries that the handler builds from three of these requests.\<close>

definition example_paid_query :: "string PaidQuery" where
  "example_paid_query =
     \<lparr>pq_subgraphDeploymentID = example_id,
      pq_paymentId = ''pay-42'',
      pq_query = body_toString (req_body paid_request),
      pq_requestCID =
        keccak256 example_ext (TextEncoder_encode (body_toString (req_body paid_request)))\<rparr>"

definition unicode_paid_query :: "string PaidQuery" where
  "unicode_paid_query =
     \<lparr>pq_subgraphDeploymentID = example_id,
      pq_paymentId = ''pay-42'',
      pq_query = body_toString (req_body unicode_request),
      pq_requestCID =
        keccak256 example_ext (TextEncoder_encode (body_toString (req_body unicode_request)))\<rparr>"

definition example_free_query :: "string FreeQuery" where
  "example_free_query =
     \<lparr>fq_subgraphDeploymentID = example_id,
      fq_stateChannelID = ''sc-1'',
      fq_query = body_toString (req_body free_request),
      fq_requestCID =
        keccak256 example_ext (TextEncoder_encode (body_toString (req_body free_request)))\<rparr>"

section \<open>Properties of the runtime functions\<close>

subsection \<open>Decoding well-formed UTF-8 loses nothing\<close>

lemma utf8_dec_more:
  "0 < n \<Longrightarrow> utf8_dec n cp lo hi (b # bs) =
     (if unat b < lo \<or> hi < unat b then 0xFFFD # utf8_dec 0 0 0x80 0xBF (b # bs)
      else if n = 1 then (cp * 64 + unat b mod 64) # utf8_dec 0 0 0x80 0xBF bs
      else utf8_dec (n - 1) (cp * 64 + unat b mod 64) 0x80 0xBF bs)"
  by (cases n) (simp_all add: Let_def)

lemma unat_byte: "x < 256 \<Longrightarrow> unat (of_nat x :: byte) = x"
  by (simp add: unat_of_nat)

lemma mod_digit: "x < m \<Longrightarrow> (k * m + x) mod m = (x::nat)"
  by simp

lemma lead_mod:
  "q < 32 \<Longrightarrow> (0xC0 + q) mod 32 = (q::nat)"
  "q < 16 \<Longrightarrow> (0xE0 + q) mod 16 = q"
  "q < 8 \<Longrightarrow> (0xF0 + q) mod 8 = q"
  "q < 64 \<Longrightarrow> (0x80 + q) mod 64 = q"
  using mod_digit [of q 32 6] mod_digit [of q 16 14] mod_digit [of q 8 30]
    mod_digit [of q 64 2] by simp_all

lemma dec_digits2:
  assumes "2 \<le> q" "q < 32" "r < 64"
  shows "utf8_dec 0 cp lo hi (of_nat (0xC0 + q) # of_nat (0x80 + r) # bs)
         = (q * 64 + r) # utf8_dec 0 0 0x80 0xBF bs"
proof -
  have u: "unat (of_nat (0xC0 + q) :: byte) = 0xC0 + q" "unat (of_nat (0x80 + r) :: byte) = 0x80 + r"
    using assms by (simp_all only: unat_byte)
  show ?thesis using assms
    by (simp only: utf8_dec.simps Let_def u lead_mod utf8_dec_more) simp
qed

lemma dec_digits3:
  assumes "q < 16" "r < 64" "t < 64" "q = 0 \<longrightarrow> 32 \<le> r" "q = 13 \<longrightarrow> r < 32"
  shows "utf8_dec 0 cp lo hi (of_nat (0xE0 + q) # of_nat (0x80 + r) # of_nat (0x80 + t) # bs)
         = ((q * 64 + r) * 64 + t) # utf8_dec 0 0 0x80 0xBF bs"
proof -
  have u: "unat (of_nat (0xE0 + q) :: byte) = 0xE0 + q"
    "unat (of_nat (0x80 + r) :: byte) = 0x80 + r"
    "unat (of_nat (0x80 + t) :: byte) = 0x80 + t"
    using assms by (simp_all only: unat_byte)
  show ?thesis using assms
    by (simp only: utf8_dec.simps Let_def u lead_mod utf8_dec_more) auto
qed

lemma dec_digits4:
  assumes "q < 5" "r < 64" "t < 64" "s < 64" "q = 0 \<longrightarrow> 16 \<le> r" "q = 4 \<longrightarrow> r < 16"
  shows "utf8_dec 0 cp lo hi
           (of_nat (0xF0 + q) # of_nat (0x80 + r) # of_nat (0x80 + t) # of_nat (0x80 + s) # bs)
         = (((q * 64 + r) * 64 + t) * 64 + s) # utf8_dec 0 0 0x80 0xBF bs"
proof -
  have u: "unat (of_nat (0xF0 + q) :: byte) = 0xF0 + q"
    "unat (of_nat (0x80 + r) :: byte) = 0x80 + r"
    "unat (of_nat (0x80 + t) :: byte) = 0x80 + t"
    "unat (of_nat (0x80 + s) :: byte) = 0x80 + s"
    using assms by (simp_all only: unat_byte)
  have q8: "q < 8" using assms by simp
  show ?thesis using assms
    by (simp only: utf8_dec.simps Let_def u lead_mod q8 utf8_dec_more) auto
qed

lemma digits:
  fixes c :: nat
  shows "c div 4096 = c div 64 div 64" "c div 262144 = c div 64 div 64 div 64"
    "c div 4096 mod 64 = c div 64 div 64 mod 64"
  by (simp_all add: div_mult2_eq [symmetric])

lemma utf8_dec_bytes:
  assumes "scalar c"
  shows "utf8_dec 0 cp lo hi (utf8_bytes c @ bs) = c # utf8_dec 0 0 0x80 0xBF bs"
proof -
  define d1 where "d1 = c div 64"
  define d2 where "d2 = d1 div 64"
  define d3 where "d3 = d2 div 64"
  have e1: "c = d1 * 64 + c mod 64" by (simp add: d1_def)
  have e2: "d1 = d2 * 64 + d1 mod 64" by (simp add: d2_def)
  have e3: "d2 = d3 * 64 + d2 mod 64" by (simp add: d3_def)
  have m: "c mod 64 < 64" "d1 mod 64 < 64" "d2 mod 64 < 64" by simp_all
  consider "c < 0x80" | "0x80 \<le> c" "c < 0x800" | "0x800 \<le> c" "c < 0x10000"
    | "0x10000 \<le> c" by linarith
  then show ?thesis
  proof cases
    case 1
    then show ?thesis by (simp add: utf8_bytes_def unat_byte Let_def)
  next
    case 2
    then have "2 \<le> d1" "d1 < 32" by (simp_all add: d1_def)
    from dec_digits2 [OF this m(1)] 2 e1 show ?thesis
      by (simp add: utf8_bytes_def d1_def)
  next
    case 3
    then have q: "d2 < 16" "d2 = 0 \<longrightarrow> 32 \<le> d1 mod 64" "d2 = 13 \<longrightarrow> d1 mod 64 < 32"
      using assms e1 e2 m unfolding scalar_def by linarith+
    from dec_digits3 [OF q(1) m(2) m(1) q(2) q(3)] 3 e1 e2 show ?thesis
      by (simp add: utf8_bytes_def d1_def d2_def digits)
  next
    case 4
    then have q: "d3 < 5" "d3 = 0 \<longrightarrow> 16 \<le> d2 mod 64" "d3 = 4 \<longrightarrow> d2 mod 64 < 16"
      using assms e1 e2 e3 m unfolding scalar_def by linarith+
    from dec_digits4 [OF q(1) m(3) m(2) m(1) q(2) q(3)] 4 e1 e2 e3 show ?thesis
      by (simp add: utf8_bytes_def d1_def d2_def d3_def digits)
  qed
qed

lemma utf8_decode_encode: "list_all scalar cs \<Longrightarrow> utf8_decode (utf8_encode cs) = cs"
  unfolding utf8_decode_def utf8_encode_def
  by (induction cs) (simp_all add: utf8_dec_bytes)

lemma unat_unit: "x < 65536 \<Longrightarrow> unat (of_nat x :: 16 word) = x"
  by (simp add: unat_of_nat)

lemma scalar_values_units:
  assumes "scalar c"
  shows "scalar_values (utf16_units c @ us) = c # scalar_values us"
proof (cases "c < 0x10000")
  case True
  then have u: "unat (of_nat c :: 16 word) = c" by (simp add: unat_unit)
  from True assms have "\<not> (0xD800 \<le> c \<and> c \<le> 0xDFFF)" by (auto simp: scalar_def)
  then show ?thesis using True u
    by (cases us) (auto simp: utf16_units_def)
next
  case False
  define d where "d = c - 0x10000"
  have d: "d < 0x100000" "c = 0x10000 + d" using False assms by (simp_all add: d_def scalar_def)
  define h where "h = 0xD800 + d div 1024"
  define l where "l = 0xDC00 + d mod 1024"
  have r: "0xD800 \<le> h" "h \<le> 0xDBFF" "0xDC00 \<le> l" "l \<le> 0xDFFF"
    using d by (simp_all add: h_def l_def)
  have u: "unat (of_nat h :: 16 word) = h" "unat (of_nat l :: 16 word) = l"
    using r by (simp_all only: unat_unit)
  have v: "0x10000 + (h - 0xD800) * 1024 + (l - 0xDC00) = c"
    using d by (simp add: h_def l_def)
  have "utf16_units c = [of_nat h, of_nat l]"
    using False by (simp add: utf16_units_def h_def l_def d_def)
  then show ?thesis using r u v by simp
qed

lemma scalar_values_string:
  "list_all scalar cs \<Longrightarrow> scalar_values (concat (map utf16_units cs)) = cs"
  by (induction cs) (simp_all add: scalar_values_units)

lemma encode_toString_wellformed:
  "list_all scalar cs \<Longrightarrow> TextEncoder_encode (Buffer_toString (utf8_encode cs)) = utf8_encode cs"
  by (simp add: TextEncoder_encode_def Buffer_toString_def utf8_decode_encode scalar_values_string)

subsection \<open>Evaluating the decoder on concrete bytes\<close>

lemma utf8_dec_end: "0 < n \<Longrightarrow> utf8_dec n cp lo hi [] = [0xFFFD]"
  by (cases n) simp_all

lemmas utf_eval = utf8_dec_more utf8_dec_end utf8_decode_def Buffer_toString_def
  utf16_units_def TextEncoder_encode_def utf8_encode_def utf8_bytes_def Let_def


section \<open>Properties of the handler\<close>

subsection \<open>Reading a run\<close>

lemma responses_append: "responses (xs @ ys) = responses xs @ responses ys"
  by (induction xs rule: responses.induct) simp_all

lemma paid_calls_append: "paid_calls (xs @ ys) = paid_calls xs @ paid_calls ys"
  by (induction xs rule: paid_calls.induct) simp_all

lemma free_calls_append: "free_calls (xs @ ys) = free_calls xs @ free_calls ys"
  by (induction xs rule: free_calls.induct) simp_all

lemma request_cids_append: "request_cids (xs @ ys) = request_cids xs @ request_cids ys"
  by (induction xs rule: request_cids.induct) simp_all

lemma preceded_run:
  "events (preceded es r) = es @ events r"
  "promise (preceded es r) = promise r"
  by (simp_all add: preceded_def)

subsection \<open>Writing the response\<close>

lemma to_int32_small: "- 2147483648 \<le> n \<Longrightarrow> n < 2147483648 \<Longrightarrow> to_int32 n = n"
  by (simp add: to_int32_def)

lemma valid_status_small:
  "- 2147483648 \<le> n \<Longrightarrow> n < 2147483648 \<Longrightarrow> valid_status n \<longleftrightarrow> 100 \<le> n \<and> n \<le> 999"
  by (simp add: valid_status_def to_int32_small)

lemma valid_status_codes: "100 \<le> n \<Longrightarrow> n \<le> 999 \<Longrightarrow> valid_status n"
  by (simp add: valid_status_small)

lemma valid_status_defaults: "valid_status 200" "valid_status 402" "valid_status 500"
  by (simp_all add: valid_status_codes)

lemma json_response_plain:
  "200 \<le> n \<Longrightarrow> n \<le> 999 \<Longrightarrow> n \<noteq> 204 \<Longrightarrow> n \<noteq> 304 \<Longrightarrow>
   json_response n p =
     \<lparr>resp_status = n, resp_contentType = Some ''application/json'', resp_payload = Some p\<rparr>"
  by (simp add: json_response_def to_int32_small)

lemma json_response_no_content:
  "n = 204 \<or> n = 304 \<Longrightarrow>
   json_response n p = \<lparr>resp_status = n, resp_contentType = None, resp_payload = None\<rparr>"
  by (auto simp: json_response_def to_int32_small)

lemma json_response_defaults:
  "json_response 200 p =
     \<lparr>resp_status = 200, resp_contentType = Some ''application/json'', resp_payload = Some p\<rparr>"
  "json_response 402 p =
     \<lparr>resp_status = 402, resp_contentType = Some ''application/json'', resp_payload = Some p\<rparr>"
  "json_response 500 p =
     \<lparr>resp_status = 500, resp_contentType = Some ''application/json'', resp_payload = Some p\<rparr>"
  by (simp_all add: json_response_plain)

lemma respond_valid:
  "valid_status s \<Longrightarrow> respond s p = \<lparr>events = [send_json s p], promise = Resolved\<rparr>"
  by (simp add: respond_def write_json_def)

lemma respond_invalid:
  "\<not> valid_status s \<Longrightarrow>
   respond s p = \<lparr>events = [], promise = Rejected (err_message (invalid_status_code s))\<rparr>"
  by (simp add: respond_def write_json_def)

lemma respond_402: "respond 402 p = \<lparr>events = [send_json 402 p], promise = Resolved\<rparr>"
  by (simp add: respond_valid valid_status_defaults)

subsection \<open>The two blocks of a \<open>try\<close> statement\<close>

lemma caught_valid:
  "valid_status (or_default (err_status e) 500) \<Longrightarrow>
   caught failed e =
     \<lparr>events = [Log Error (failed e),
                send_json (or_default (err_status e) 500) (ErrorObject (err_message e))],
      promise = Resolved\<rparr>"
  by (simp add: caught_def respond_valid preceded_def)

lemma caught_invalid:
  "\<not> valid_status (or_default (err_status e) 500) \<Longrightarrow>
   caught failed e =
     \<lparr>events = [Log Error (failed e)],
      promise = Rejected (err_message (invalid_status_code (or_default (err_status e) 500)))\<rparr>"
  by (simp add: caught_def respond_invalid preceded_def)

lemma caught_range_error:
  "caught failed (invalid_status_code s) =
     \<lparr>events = [Log Error (failed (invalid_status_code s)),
                send_json 500 (ErrorObject (err_message (invalid_status_code s)))],
      promise = Resolved\<rparr>"
proof -
  have "or_default (err_status (invalid_status_code s)) 500 = 500"
    by (simp add: invalid_status_code_def)
  then show ?thesis
    using caught_valid [of "invalid_status_code s" failed] by (simp add: valid_status_defaults)
qed

lemma answer_returns_valid:
  "valid_status (or_default (status r) 200) \<Longrightarrow>
   answer failed (Returns r) =
     \<lparr>events = [send_json (or_default (status r) 200) (Result (result r))],
      promise = Resolved\<rparr>"
  by (simp add: answer_def write_json_def)

lemma answer_returns_invalid:
  "\<not> valid_status (or_default (status r) 200) \<Longrightarrow>
   answer failed (Returns r) =
     \<lparr>events = [Log Error (failed (invalid_status_code (or_default (status r) 200))),
                send_json 500
                  (ErrorObject (err_message (invalid_status_code (or_default (status r) 200))))],
      promise = Resolved\<rparr>"
  by (simp add: answer_def write_json_def caught_range_error)

lemma answer_throws: "answer failed (Throws e) = caught failed e"
  by (simp add: answer_def)

lemma answer_no_calls:
  "paid_calls (events (answer failed out)) = []"
  "free_calls (events (answer failed out)) = []"
  "request_cids (events (answer failed out)) = []"
  "\<not> list_ex received_free_query (events (answer failed out))"
  by (simp_all add: answer_def caught_def respond_def write_json_def send_json_def preceded_def
      split: outcome.split)

lemma respond_no_calls:
  "paid_calls (events (respond s p)) = []"
  "free_calls (events (respond s p)) = []"
  "request_cids (events (respond s p)) = []"
  "\<not> list_ex received_free_query (events (respond s p))"
  by (simp_all add: respond_def write_json_def send_json_def)

text \<open>The responses of a \<open>try\<close> statement, by the outcome of the call.\<close>

lemma answer_responses:
  "responses (events (answer failed (Returns r))) =
     (if valid_status (or_default (status r) 200)
      then [json_response (or_default (status r) 200) (Result (result r))]
      else [json_response 500
              (ErrorObject (err_message (invalid_status_code (or_default (status r) 200))))])"
  "responses (events (answer failed (Throws e))) =
     (if valid_status (or_default (err_status e) 500)
      then [json_response (or_default (err_status e) 500) (ErrorObject (err_message e))]
      else [])"
  by (simp_all add: answer_returns_valid answer_returns_invalid answer_throws caught_valid
      caught_invalid send_json_def)

lemma answer_promise:
  "promise (answer failed (Returns r)) = Resolved"
  "promise (answer failed (Throws e)) =
     (if valid_status (or_default (err_status e) 500) then Resolved
      else Rejected (err_message (invalid_status_code (or_default (err_status e) 500))))"
  by (simp_all add: answer_def write_json_def caught_range_error caught_valid caught_invalid)

subsection \<open>The branches of the handler\<close>

lemma handle_query_throws:
  "newSubgraphDeploymentID ext (req_params_id req) = Inl err \<Longrightarrow>
   handle_query ext opts req = \<lparr>events = [], promise = Rejected err\<rparr>"
  by (simp add: handle_query_def)

lemma handle_query_invalid_payment:
  "newSubgraphDeploymentID ext (req_params_id req) = Inr sid \<Longrightarrow>
   req_headers req ''x-graph-payment-id'' = Some (Arr vs) \<Longrightarrow>
   handle_query ext opts req =
     \<lparr>events = [Log Info (InvalidPaymentID sid),
                send_json 402 (ErrorObject ''Invalid X-Graph-Payment-ID provided'')],
      promise = Resolved\<rparr>"
  by (simp add: handle_query_def respond_402 preceded_def)

lemma handle_query_missing_payment:
  "newSubgraphDeploymentID ext (req_params_id req) = Inr sid \<Longrightarrow>
   req_headers req ''x-graph-payment-id'' = None \<Longrightarrow>
   req_ip req \<notin> set (whitelist opts) \<Longrightarrow>
   handle_query ext opts req =
     \<lparr>events = [Log Info (MissingPaymentID sid),
                send_json 402 (ErrorObject ''No X-Graph-Payment-ID provided'')],
      promise = Resolved\<rparr>"
  by (simp add: handle_query_def respond_402 preceded_def)

lemma handle_query_paid:
  "newSubgraphDeploymentID ext (req_params_id req) = Inr sid \<Longrightarrow>
   req_headers req ''x-graph-payment-id'' = Some (Str p) \<Longrightarrow>
   handle_query ext opts req = paid_query ext opts sid p (body_toString (req_body req))"
  by (simp add: handle_query_def)

lemma handle_query_free:
  "newSubgraphDeploymentID ext (req_params_id req) = Inr sid \<Longrightarrow>
   req_headers req ''x-graph-payment-id'' = None \<Longrightarrow>
   req_ip req \<in> set (whitelist opts) \<Longrightarrow>
   handle_query ext opts req =
     free_query ext opts sid (req_headers req ''x-graph-state-channel-id'')
       (body_toString (req_body req))"
  by (simp add: handle_query_def)

text \<open>
  A request whose id the constructor accepts and whose payment-ID header arrived as an
  array is answered with status 402, and so is a request whose id the constructor
  accepts, from outside the whitelist and without the header. The processor is not
  called.
\<close>

lemma invalid_payment_header_answered:
  assumes "newSubgraphDeploymentID ext (req_params_id req) = Inr sid"
    and "req_headers req ''x-graph-payment-id'' = Some (Arr vs)"
  shows "responses (events (handle_query ext opts req)) =
           [\<lparr>resp_status = 402, resp_contentType = Some ''application/json'',
             resp_payload = Some (ErrorObject ''Invalid X-Graph-Payment-ID provided'')\<rparr>]
         \<and> paid_calls (events (handle_query ext opts req)) = []
         \<and> free_calls (events (handle_query ext opts req)) = []
         \<and> promise (handle_query ext opts req) = Resolved"
  by (simp add: handle_query_invalid_payment [OF assms] send_json_def json_response_defaults)

lemma missing_payment_answered:
  assumes "newSubgraphDeploymentID ext (req_params_id req) = Inr sid"
    and "req_ip req \<notin> set (whitelist opts)"
    and "req_headers req ''x-graph-payment-id'' = None"
  shows "responses (events (handle_query ext opts req)) =
           [\<lparr>resp_status = 402, resp_contentType = Some ''application/json'',
             resp_payload = Some (ErrorObject ''No X-Graph-Payment-ID provided'')\<rparr>]
         \<and> paid_calls (events (handle_query ext opts req)) = []
         \<and> free_calls (events (handle_query ext opts req)) = []
         \<and> promise (handle_query ext opts req) = Resolved"
  by (simp add: handle_query_missing_payment [OF assms(1) assms(3) assms(2)] send_json_def
      json_response_defaults)

subsection \<open>What the two paths do\<close>

lemma paid_query_calls:
  "paid_calls (events (paid_query ext opts sid p query)) =
     [\<lparr>pq_subgraphDeploymentID = sid, pq_paymentId = p, pq_query = query,
       pq_requestCID = keccak256 ext (TextEncoder_encode query)\<rparr>]"
  "free_calls (events (paid_query ext opts sid p query)) = []"
  by (simp_all add: paid_query_def Let_def preceded_run paid_calls_append free_calls_append
      answer_no_calls)

lemma paid_query_answer:
  fixes ext :: "'sid externals"
  shows "responses (events (paid_query ext opts sid p query)) =
     responses (events (answer (FailedPaidQuery :: thrown \<Rightarrow> 'sid log_message)
       (addPaidQuery (queryProcessor opts)
          \<lparr>pq_subgraphDeploymentID = sid, pq_paymentId = p, pq_query = query,
           pq_requestCID = keccak256 ext (TextEncoder_encode query)\<rparr>)))"
    and "promise (paid_query ext opts sid p query) =
     promise (answer (FailedPaidQuery :: thrown \<Rightarrow> 'sid log_message)
       (addPaidQuery (queryProcessor opts)
          \<lparr>pq_subgraphDeploymentID = sid, pq_paymentId = p, pq_query = query,
           pq_requestCID = keccak256 ext (TextEncoder_encode query)\<rparr>))"
  by (simp_all add: paid_query_def Let_def preceded_run responses_append)

lemma request_cids_paid_query:
  "request_cids (events (paid_query ext opts sid p query))
     = [keccak256 ext (TextEncoder_encode query)]"
  by (simp add: paid_query_def Let_def preceded_run request_cids_append answer_no_calls)

lemma paid_query_not_free: "\<not> takes_free_path (paid_query ext opts sid p query)"
  by (simp add: takes_free_path_def paid_query_def Let_def preceded_run answer_no_calls)

lemma free_query_rejected:
  "\<forall>ch. h \<noteq> Some (Str ch) \<Longrightarrow>
   free_query ext opts sid h query =
     \<lparr>events = [Log Info (ReceivedFreeQuery sid), Log Info (InvalidStateChannelID sid),
                send_json 402 (ErrorObject ''Invalid X-Graph-State-Channel-ID provided'')],
      promise = Resolved\<rparr>"
  by (auto simp: free_query_def respond_402 preceded_def split: option.split header_value.split)


lemma free_query_calls:
  "free_calls (events (free_query ext opts sid (Some (Str ch)) query)) =
     [\<lparr>fq_subgraphDeploymentID = sid, fq_stateChannelID = ch, fq_query = query,
       fq_requestCID = keccak256 ext (TextEncoder_encode query)\<rparr>]"
  "paid_calls (events (free_query ext opts sid h query)) = []"
  by (simp_all add: free_query_def Let_def preceded_run paid_calls_append free_calls_append
      answer_no_calls respond_no_calls split: option.split header_value.split)

lemma free_query_answer:
  fixes ext :: "'sid externals"
  shows "responses (events (free_query ext opts sid (Some (Str ch)) query)) =
     responses (events (answer (FailedFreeQuery :: thrown \<Rightarrow> 'sid log_message)
       (addFreeQuery (queryProcessor opts)
          \<lparr>fq_subgraphDeploymentID = sid, fq_stateChannelID = ch, fq_query = query,
           fq_requestCID = keccak256 ext (TextEncoder_encode query)\<rparr>)))"
    and "promise (free_query ext opts sid (Some (Str ch)) query) =
     promise (answer (FailedFreeQuery :: thrown \<Rightarrow> 'sid log_message)
       (addFreeQuery (queryProcessor opts)
          \<lparr>fq_subgraphDeploymentID = sid, fq_stateChannelID = ch, fq_query = query,
           fq_requestCID = keccak256 ext (TextEncoder_encode query)\<rparr>))"
  by (simp_all add: free_query_def Let_def preceded_run responses_append)

lemma request_cids_free_query:
  "c \<in> set (request_cids (events (free_query ext opts sid h query))) \<Longrightarrow>
   c = keccak256 ext (TextEncoder_encode query)"
  by (auto simp: free_query_def Let_def preceded_run request_cids_append answer_no_calls
        respond_no_calls
      split: option.splits header_value.splits)

lemma free_query_free: "takes_free_path (free_query ext opts sid h query)"
  by (simp add: takes_free_path_def free_query_def preceded_run)

subsection \<open>The calls of a run\<close>

lemma paid_calls_handle_query:
  "paid_calls (events (handle_query ext opts req)) =
     (case newSubgraphDeploymentID ext (req_params_id req) of
        Inl err \<Rightarrow> []
      | Inr sid \<Rightarrow>
          (case req_headers req ''x-graph-payment-id'' of
             Some (Str p) \<Rightarrow>
               [\<lparr>pq_subgraphDeploymentID = sid, pq_paymentId = p,
                 pq_query = body_toString (req_body req),
                 pq_requestCID =
                   keccak256 ext (TextEncoder_encode (body_toString (req_body req)))\<rparr>]
           | _ \<Rightarrow> []))"
  by (simp add: handle_query_def paid_query_calls free_query_calls respond_no_calls
      preceded_run paid_calls_append Let_def
      split: sum.split option.split header_value.split)

lemma free_calls_handle_query:
  "free_calls (events (handle_query ext opts req)) =
     (case newSubgraphDeploymentID ext (req_params_id req) of
        Inl err \<Rightarrow> []
      | Inr sid \<Rightarrow>
          (if req_headers req ''x-graph-payment-id'' = None
              \<and> req_ip req \<in> set (whitelist opts) then
             (case req_headers req ''x-graph-state-channel-id'' of
                Some (Str ch) \<Rightarrow>
                  [\<lparr>fq_subgraphDeploymentID = sid, fq_stateChannelID = ch,
                    fq_query = body_toString (req_body req),
                    fq_requestCID =
                      keccak256 ext (TextEncoder_encode (body_toString (req_body req)))\<rparr>]
              | _ \<Rightarrow> [])
           else []))"
  by (auto simp: handle_query_def paid_query_calls free_query_calls respond_no_calls
        preceded_run free_calls_append Let_def free_query_rejected send_json_def
      split: sum.split option.split header_value.split)

lemma paid_calls_member:
  assumes "q \<in> set (paid_calls (events (handle_query ext opts req)))"
  shows "\<exists>sid p. newSubgraphDeploymentID ext (req_params_id req) = Inr sid
    \<and> req_headers req ''x-graph-payment-id'' = Some (Str p)
    \<and> q = \<lparr>pq_subgraphDeploymentID = sid, pq_paymentId = p,
            pq_query = body_toString (req_body req),
            pq_requestCID =
              keccak256 ext (TextEncoder_encode (body_toString (req_body req)))\<rparr>"
proof (cases "newSubgraphDeploymentID ext (req_params_id req)")
  case (Inl err)
  with assms show ?thesis by (simp add: paid_calls_handle_query)
next
  case (Inr sid)
  show ?thesis
  proof (cases "req_headers req ''x-graph-payment-id''")
    case None
    with assms Inr show ?thesis by (simp add: paid_calls_handle_query)
  next
    case (Some v)
    show ?thesis
    proof (cases v)
      case (Str p)
      with assms Inr Some show ?thesis by (simp add: paid_calls_handle_query)
    next
      case (Arr vs)
      with assms Inr Some show ?thesis by (simp add: paid_calls_handle_query)
    qed
  qed
qed

lemma free_calls_member:
  assumes "q \<in> set (free_calls (events (handle_query ext opts req)))"
  shows "\<exists>sid ch. newSubgraphDeploymentID ext (req_params_id req) = Inr sid
    \<and> req_headers req ''x-graph-payment-id'' = None
    \<and> req_ip req \<in> set (whitelist opts)
    \<and> req_headers req ''x-graph-state-channel-id'' = Some (Str ch)
    \<and> q = \<lparr>fq_subgraphDeploymentID = sid, fq_stateChannelID = ch,
            fq_query = body_toString (req_body req),
            fq_requestCID =
              keccak256 ext (TextEncoder_encode (body_toString (req_body req)))\<rparr>"
proof (cases "newSubgraphDeploymentID ext (req_params_id req)")
  case (Inl err)
  with assms show ?thesis by (simp add: free_calls_handle_query)
next
  case (Inr sid)
  have hw: "req_headers req ''x-graph-payment-id'' = None \<and> req_ip req \<in> set (whitelist opts)"
  proof (rule ccontr)
    assume "\<not> ?thesis"
    then have "free_calls (events (handle_query ext opts req)) = []"
      by (auto simp: free_calls_handle_query Inr)
    with assms show False by simp
  qed
  show ?thesis
  proof (cases "req_headers req ''x-graph-state-channel-id''")
    case None
    with assms Inr hw show ?thesis by (simp add: free_calls_handle_query)
  next
    case (Some v)
    show ?thesis
    proof (cases v)
      case (Str ch)
      with assms Inr Some hw show ?thesis by (simp add: free_calls_handle_query)
    next
      case (Arr vs)
      with assms Inr Some hw show ?thesis by (simp add: free_calls_handle_query)
    qed
  qed
qed

text \<open>
  A run that called the processor went on as the \<open>try\<close> statement does with the outcome
  of that call.
\<close>

lemma paid_call_answer:
  fixes ext :: "'sid externals"
  assumes "q \<in> set (paid_calls (events (handle_query ext opts req)))"
  shows "responses (events (handle_query ext opts req)) =
           responses (events (answer (FailedPaidQuery :: thrown \<Rightarrow> 'sid log_message)
             (addPaidQuery (queryProcessor opts) q)))"
    and "promise (handle_query ext opts req) =
           promise (answer (FailedPaidQuery :: thrown \<Rightarrow> 'sid log_message)
             (addPaidQuery (queryProcessor opts) q))"
proof -
  from paid_calls_member [OF assms] obtain sid p where
    c: "newSubgraphDeploymentID ext (req_params_id req) = Inr sid"
    and h: "req_headers req ''x-graph-payment-id'' = Some (Str p)"
    and q: "q = \<lparr>pq_subgraphDeploymentID = sid, pq_paymentId = p,
      pq_query = body_toString (req_body req),
      pq_requestCID = keccak256 ext (TextEncoder_encode (body_toString (req_body req)))\<rparr>"
    by blast
  show "responses (events (handle_query ext opts req)) =
      responses (events (answer (FailedPaidQuery :: thrown \<Rightarrow> 'sid log_message)
        (addPaidQuery (queryProcessor opts) q)))"
    by (simp add: handle_query_paid [OF c h] paid_query_answer q)
  show "promise (handle_query ext opts req) =
      promise (answer (FailedPaidQuery :: thrown \<Rightarrow> 'sid log_message)
        (addPaidQuery (queryProcessor opts) q))"
    by (simp add: handle_query_paid [OF c h] paid_query_answer q)
qed

lemma free_call_answer:
  fixes ext :: "'sid externals"
  assumes "q \<in> set (free_calls (events (handle_query ext opts req)))"
  shows "responses (events (handle_query ext opts req)) =
           responses (events (answer (FailedFreeQuery :: thrown \<Rightarrow> 'sid log_message)
             (addFreeQuery (queryProcessor opts) q)))"
    and "promise (handle_query ext opts req) =
           promise (answer (FailedFreeQuery :: thrown \<Rightarrow> 'sid log_message)
             (addFreeQuery (queryProcessor opts) q))"
proof -
  from free_calls_member [OF assms] obtain sid ch where
    c: "newSubgraphDeploymentID ext (req_params_id req) = Inr sid"
    and h: "req_headers req ''x-graph-payment-id'' = None"
    and w: "req_ip req \<in> set (whitelist opts)"
    and s: "req_headers req ''x-graph-state-channel-id'' = Some (Str ch)"
    and q: "q = \<lparr>fq_subgraphDeploymentID = sid, fq_stateChannelID = ch,
      fq_query = body_toString (req_body req),
      fq_requestCID = keccak256 ext (TextEncoder_encode (body_toString (req_body req)))\<rparr>"
    by blast
  show "responses (events (handle_query ext opts req)) =
      responses (events (answer (FailedFreeQuery :: thrown \<Rightarrow> 'sid log_message)
        (addFreeQuery (queryProcessor opts) q)))"
    by (simp add: handle_query_free [OF c h w] s free_query_answer q)
  show "promise (handle_query ext opts req) =
      promise (answer (FailedFreeQuery :: thrown \<Rightarrow> 'sid log_message)
        (addFreeQuery (queryProcessor opts) q))"
    by (simp add: handle_query_free [OF c h w] s free_query_answer q)
qed

text \<open>The responses of a run that called the processor, by the outcome of the call.\<close>

lemma call_responses:
  assumes "q \<in> set (paid_calls (events (handle_query ext opts req)))
             \<and> addPaidQuery (queryProcessor opts) q = out
           \<or> q' \<in> set (free_calls (events (handle_query ext opts req)))
             \<and> addFreeQuery (queryProcessor opts) q' = out"
  shows "out = Returns r \<Longrightarrow>
         responses (events (handle_query ext opts req)) =
           (if valid_status (or_default (status r) 200)
            then [json_response (or_default (status r) 200) (Result (result r))]
            else [json_response 500
                    (ErrorObject
                       (err_message (invalid_status_code (or_default (status r) 200))))])"
    and "out = Throws e \<Longrightarrow>
         responses (events (handle_query ext opts req)) =
           (if valid_status (or_default (err_status e) 500)
            then [json_response (or_default (err_status e) 500) (ErrorObject (err_message e))]
            else [])"
  using assms paid_call_answer(1) [of q ext opts req] free_call_answer(1) [of q' ext opts req]
  by (auto simp: answer_responses)

lemma request_cids_handle_query:
  "c \<in> set (request_cids (events (handle_query ext opts req))) \<Longrightarrow>
   c = keccak256 ext (TextEncoder_encode (body_toString (req_body req)))"
  by (auto simp: handle_query_def Let_def preceded_run request_cids_append respond_no_calls
        request_cids_paid_query
      dest: request_cids_free_query
      split: sum.splits option.splits header_value.splits if_splits)

text \<open>Whatever the hash function is, the body \<open>FF\<close> gets the identifier of \<open>EF BF BD\<close>.\<close>

lemma replacement_bytes:
  "TextEncoder_encode (Buffer_toString [0xFF]) = [0xEF, 0xBF, 0xBD]"
  "TextEncoder_encode (Buffer_toString [0xFE]) = [0xEF, 0xBF, 0xBD]"
  by (simp_all add: utf_eval)

lemma ill_formed_body_request_cid:
  assumes "req_body req = Buffer [0xFF] \<or> req_body req = Buffer [0xFE]"
    and "c \<in> set (request_cids (events (handle_query ext opts req)))"
  shows "c = keccak256 ext [0xEF, 0xBF, 0xBD]"
  using assms(1) request_cids_handle_query [OF assms(2)]
  by (auto simp: replacement_bytes)

subsection \<open>The free path\<close>

text \<open>
  The handler takes the free path exactly when the constructor has accepted the id, the
  request has no payment-ID header and its source address is whitelisted.
\<close>

lemma free_path_iff:
  "takes_free_path (handle_query ext opts req) \<longleftrightarrow>
     (\<exists>sid. newSubgraphDeploymentID ext (req_params_id req) = Inr sid)
     \<and> req_headers req ''x-graph-payment-id'' = None
     \<and> req_ip req \<in> set (whitelist opts)"
proof (cases "newSubgraphDeploymentID ext (req_params_id req)")
  case (Inl err)
  then show ?thesis by (simp add: handle_query_throws takes_free_path_def)
next
  case (Inr sid)
  show ?thesis
  proof (cases "req_headers req ''x-graph-payment-id''")
    case None
    show ?thesis
    proof (cases "req_ip req \<in> set (whitelist opts)")
      case True
      with Inr None show ?thesis by (simp add: handle_query_free free_query_free)
    next
      case False
      with Inr None show ?thesis
        by (simp add: handle_query_missing_payment takes_free_path_def send_json_def)
    qed
  next
    case (Some v)
    show ?thesis
    proof (cases v)
      case (Str p)
      with Inr Some show ?thesis by (simp add: handle_query_paid paid_query_not_free)
    next
      case (Arr vs)
      with Inr Some show ?thesis
        by (simp add: handle_query_invalid_payment takes_free_path_def send_json_def)
    qed
  qed
qed

lemma free_path_run:
  assumes "takes_free_path (handle_query ext opts req)"
  shows "\<exists>sid. handle_query ext opts req =
           free_query ext opts sid (req_headers req ''x-graph-state-channel-id'')
             (body_toString (req_body req))"
proof -
  from assms obtain sid where "newSubgraphDeploymentID ext (req_params_id req) = Inr sid"
    and "req_headers req ''x-graph-payment-id'' = None"
    and "req_ip req \<in> set (whitelist opts)"
    unfolding free_path_iff by blast
  then show ?thesis by (auto simp: handle_query_free)
qed

subsection \<open>Which requests are answered\<close>

text \<open>
  A run sends one response at most. It has sent one when its promise resolves, and none
  when its promise is rejected. The promise is rejected in two cases: the constructor
  throws, or the processor throws an error whose status, after \<open>|| 500\<close>, is no valid
  status code.
\<close>

lemma answer_answered:
  "promise (answer failed out) = Resolved \<Longrightarrow> length (responses (events (answer failed out))) = 1"
  "promise (answer failed out) = Rejected m \<Longrightarrow> responses (events (answer failed out)) = []"
  by (cases out; simp add: answer_responses answer_promise split: if_splits)+

lemma handle_query_answered:
  "promise (handle_query ext opts req) = Resolved \<Longrightarrow>
   length (responses (events (handle_query ext opts req))) = 1"
  "promise (handle_query ext opts req) = Rejected m \<Longrightarrow>
   responses (events (handle_query ext opts req)) = []"
  by (auto simp: handle_query_def Let_def preceded_run responses_append respond_402
        send_json_def paid_query_def free_query_def answer_answered
      split: sum.splits option.splits header_value.splits if_splits)

lemma handle_query_unanswered:
  assumes "newSubgraphDeploymentID ext (req_params_id req) = Inl err"
  shows "responses (events (handle_query ext opts req)) = []
    \<and> promise (handle_query ext opts req) = Rejected err"
  by (simp add: handle_query_throws [OF assms])

lemma handle_query_answers_once:
  fixes ext :: "'sid externals"
  assumes "newSubgraphDeploymentID ext (req_params_id req) = Inr sid"
    and "\<And>q e. addPaidQuery (queryProcessor opts) q = Throws e \<Longrightarrow>
           valid_status (or_default (err_status e) 500)"
    and "\<And>q e. addFreeQuery (queryProcessor opts) q = Throws e \<Longrightarrow>
           valid_status (or_default (err_status e) 500)"
  shows "length (responses (events (handle_query ext opts req))) = 1
    \<and> promise (handle_query ext opts req) = Resolved"
proof -
  have p: "promise (answer failed (addPaidQuery (queryProcessor opts) q)) = Resolved"
    for failed :: "thrown \<Rightarrow> 'sid log_message" and q
    using assms(2) [of q]
    by (cases "addPaidQuery (queryProcessor opts) q") (simp_all add: answer_promise)
  have f: "promise (answer failed (addFreeQuery (queryProcessor opts) q)) = Resolved"
    for failed :: "thrown \<Rightarrow> 'sid log_message" and q
    using assms(3) [of q]
    by (cases "addFreeQuery (queryProcessor opts) q") (simp_all add: answer_promise)
  have "promise (handle_query ext opts req) = Resolved"
    using assms(1)
    by (auto simp: handle_query_def Let_def preceded_run respond_402 paid_query_def
          free_query_def p f
        split: option.splits header_value.splits)
  then show ?thesis by (simp add: handle_query_answered)
qed

subsection \<open>The constructor\<close>

text \<open>
  The constructor accepts every id that does not start with \<open>Qm\<close>, among them the id
  \<open>0\<close>; it turns a multihash into the hex form of its digest; and it throws for the
  id \<open>Qm0\<close>.
\<close>

lemma constructor_keeps: "take 2 s \<noteq> ''Qm'' \<Longrightarrow> new_SubgraphDeploymentID s = Inr s"
  by (simp add: new_SubgraphDeploymentID_def)

lemma constructor_examples:
  "new_SubgraphDeploymentID example_id = Inr example_id"
  "new_SubgraphDeploymentID ''0'' = Inr ''0''"
  by (simp_all add: constructor_keeps example_id_def)

lemma constructor_throws: "new_SubgraphDeploymentID ''Qm0'' = Inl ''Non-base58 character''"
  by (simp add: new_SubgraphDeploymentID_def base58_decode_def base58_alphabet_def)

lemma constructor_multihash:
  "new_SubgraphDeploymentID ''QmUNLLsPACCz1vLxQVkXqqLX5R1X345qqfHbsf67hvA3Nn''
     = Inr ''0x59948439065f29619ef41280cbb932be52c56d99c5966b65e0111239f098bbef''"
  by (simp add: new_SubgraphDeploymentID_def base58_decode_def base58_alphabet_def
      big_endian.simps hexlify_def)

subsection \<open>Facts about the example deployment\<close>

lemmas example_requests = paid_request_def free_request_def trusted_paid_request_def
  duplicated_payment_request_def bare_request_def trusted_bare_request_def
  duplicated_channel_request_def ff_request_def fe_request_def invalid_id_request_def
  unicode_request_def

lemmas invalid_id_requests = invalid_id_duplicated_payment_request_def
  invalid_id_bare_request_def

lemma example_accepts:
  "newSubgraphDeploymentID example_ext example_id = Inr example_id"
  by (simp add: example_ext_def constructor_examples)

lemma example_throws:
  "newSubgraphDeploymentID example_ext ''Qm0'' = Inl ''Non-base58 character''"
  by (simp add: example_ext_def constructor_throws)

lemma example_paid_requests:
  "newSubgraphDeploymentID example_ext (req_params_id paid_request) = Inr example_id"
  "newSubgraphDeploymentID example_ext (req_params_id trusted_paid_request) = Inr example_id"
  "newSubgraphDeploymentID example_ext (req_params_id ff_request) = Inr example_id"
  "newSubgraphDeploymentID example_ext (req_params_id fe_request) = Inr example_id"
  "newSubgraphDeploymentID example_ext (req_params_id unicode_request) = Inr example_id"
  "req_headers paid_request ''x-graph-payment-id'' = Some (Str ''pay-42'')"
  "req_headers trusted_paid_request ''x-graph-payment-id'' = Some (Str ''pay-42'')"
  "req_headers ff_request ''x-graph-payment-id'' = Some (Str ''pay-42'')"
  "req_headers fe_request ''x-graph-payment-id'' = Some (Str ''pay-42'')"
  "req_headers unicode_request ''x-graph-payment-id'' = Some (Str ''pay-42'')"
  by (simp_all add: example_requests example_accepts)

lemma example_free_request:
  "newSubgraphDeploymentID example_ext (req_params_id free_request) = Inr example_id"
  "req_headers free_request ''x-graph-payment-id'' = None"
  "req_headers free_request ''x-graph-state-channel-id'' = Some (Str ''sc-1'')"
  "req_ip free_request = ''10.0.0.1''"
  by (simp_all add: example_requests example_accepts)

lemma example_whitelists:
  "whitelist example_opts = [''10.0.0.1'']"
  "whitelist zero_status_opts = [''10.0.0.1'']"
  "whitelist swapped_zero_status_opts = [''10.0.0.1'']"
  "whitelist invalid_status_opts = [''10.0.0.1'']"
  "whitelist no_content_opts = [''10.0.0.1'']"
  by (simp_all add: example_opts_def zero_status_opts_def swapped_zero_status_opts_def
      invalid_status_opts_def no_content_opts_def)

lemma example_processors:
  "addPaidQuery (queryProcessor example_opts) q
     = Throws \<lparr>err_status = Some 429, err_message = ''rate limited''\<rparr>"
  "addFreeQuery (queryProcessor example_opts) q'
     = Returns \<lparr>status = None, result = ''{data: []}''\<rparr>"
  "addPaidQuery (queryProcessor zero_status_opts) q
     = Returns \<lparr>status = Some 0, result = ''{data: []}''\<rparr>"
  "addFreeQuery (queryProcessor zero_status_opts) q'
     = Throws \<lparr>err_status = Some 0, err_message = ''failed''\<rparr>"
  "addPaidQuery (queryProcessor swapped_zero_status_opts) q
     = Throws \<lparr>err_status = Some 0, err_message = ''failed''\<rparr>"
  "addFreeQuery (queryProcessor swapped_zero_status_opts) q'
     = Returns \<lparr>status = Some 0, result = ''{data: []}''\<rparr>"
  "addPaidQuery (queryProcessor invalid_status_opts) q
     = Throws \<lparr>err_status = Some 1000, err_message = ''failed''\<rparr>"
  "addFreeQuery (queryProcessor invalid_status_opts) q'
     = Returns \<lparr>status = Some 1000, result = ''{data: []}''\<rparr>"
  "addPaidQuery (queryProcessor no_content_opts) q
     = Throws \<lparr>err_status = Some 304, err_message = ''failed''\<rparr>"
  "addFreeQuery (queryProcessor no_content_opts) q'
     = Returns \<lparr>status = Some 204, result = ''{data: []}''\<rparr>"
  by (simp_all add: example_opts_def zero_status_opts_def swapped_zero_status_opts_def
      invalid_status_opts_def no_content_opts_def)

lemma example_bodies:
  "req_body paid_request = Buffer (utf8_encode (map of_char ''{ pools { id } }''))"
  "req_body trusted_paid_request = Buffer (utf8_encode (map of_char ''{ pools { id } }''))"
  "req_body free_request = Buffer (utf8_encode (map of_char ''{ tokens { id } }''))"
  "req_body unicode_request = Buffer (utf8_encode [0x7B, 0xE9, 0x20AC, 0x1F600, 0x7D])"
  "req_body ff_request = Buffer [0xFF]"
  "req_body fe_request = Buffer [0xFE]"
  by (simp_all add: example_requests ascii_bytes_def)

lemma example_bodies_wellformed:
  "list_all scalar (map of_char ''{ pools { id } }'')"
  "list_all scalar (map of_char ''{ tokens { id } }'')"
  "list_all scalar [0x7B, 0xE9, 0x20AC, 0x1F600, 0x7D]"
  by (simp_all add: scalar_def)

lemma example_paid_calls:
  "paid_calls (events (handle_query example_ext opts paid_request)) = [example_paid_query]"
  "paid_calls (events (handle_query example_ext opts unicode_request)) = [unicode_paid_query]"
  by (simp_all add: paid_calls_handle_query example_paid_requests example_paid_query_def
      unicode_paid_query_def)

lemma example_free_calls:
  "''10.0.0.1'' \<in> set (whitelist opts) \<Longrightarrow>
   free_calls (events (handle_query example_ext opts free_request)) = [example_free_query]"
  by (simp add: free_calls_handle_query example_free_request example_free_query_def)

lemma example_request_cids:
  "request_cids (events (handle_query example_ext opts paid_request))
     = [keccak256 example_ext (TextEncoder_encode (body_toString (req_body paid_request)))]"
  "request_cids (events (handle_query example_ext opts trusted_paid_request))
     = [keccak256 example_ext
          (TextEncoder_encode (body_toString (req_body trusted_paid_request)))]"
  "request_cids (events (handle_query example_ext opts unicode_request))
     = [keccak256 example_ext (TextEncoder_encode (body_toString (req_body unicode_request)))]"
  "request_cids (events (handle_query example_ext opts ff_request))
     = [keccak256 example_ext (TextEncoder_encode (body_toString (req_body ff_request)))]"
  "request_cids (events (handle_query example_ext opts fe_request))
     = [keccak256 example_ext (TextEncoder_encode (body_toString (req_body fe_request)))]"
  by (simp_all add: handle_query_paid [OF example_paid_requests(1) example_paid_requests(6)]
      handle_query_paid [OF example_paid_requests(2) example_paid_requests(7)]
      handle_query_paid [OF example_paid_requests(5) example_paid_requests(10)]
      handle_query_paid [OF example_paid_requests(3) example_paid_requests(8)]
      handle_query_paid [OF example_paid_requests(4) example_paid_requests(9)]
      request_cids_paid_query)

text \<open>The message of the error that the write throws for the status 1000.\<close>

lemma invalid_status_1000:
  "\<not> valid_status 1000"
  "err_message (invalid_status_code 1000) = ''Invalid status code: 1000''"
  by (simp_all add: valid_status_small invalid_status_code_def number_toString_def
      decimal_digits.simps)

section \<open>The claims of the specification\<close>

text \<open>
  The handler constructs the deployment ID from the path before it looks at any header,
  and it does so outside every \<open>try\<close> block. When the constructor throws, the run
  ends there: no header is read, no path is taken and no response is sent. The
  hypothesis \<open>newSubgraphDeploymentID ext (req_params_id req) = Inr sid\<close> says that the
  constructor has accepted the id of the request.
\<close>

subsection \<open>C1: path selection\<close>

text \<open>
  C1 as stated says that every request without a payment-ID header takes the free path.
  It does not: a request without the header from an address outside the whitelist is
  turned away with status 402 before a path is chosen, and its effects are not those of
  the free path.
\<close>

theorem C1_absent_header_counterexample:
  "req_headers bare_request ''x-graph-payment-id'' = None
   \<and> events (handle_query example_ext example_opts bare_request) =
       [Log Info (MissingPaymentID example_id),
        send_json 402 (ErrorObject ''No X-Graph-Payment-ID provided'')]
   \<and> events (handle_query example_ext example_opts bare_request) \<noteq>
       events (free_query example_ext example_opts example_id
         (req_headers bare_request ''x-graph-state-channel-id'')
         (body_toString (req_body bare_request)))"
proof -
  have a: "newSubgraphDeploymentID example_ext (req_params_id bare_request) = Inr example_id"
    by (simp add: example_requests example_accepts)
  have b: "req_ip bare_request \<notin> set (whitelist example_opts)"
    by (simp add: example_requests example_opts_def)
  have c: "req_headers bare_request ''x-graph-payment-id'' = None"
    by (simp add: example_requests)
  have d: "req_headers bare_request ''x-graph-state-channel-id'' = None"
    by (simp add: example_requests)
  show ?thesis
    by (simp add: handle_query_missing_payment [OF a c b] c d free_query_rejected)
qed

text \<open>
  C1, amended. For a request whose id the constructor accepts: if the payment-ID header
  is a single string, the handler takes the paid path, invokes \<open>addPaidQuery\<close> exactly
  once and never \<open>addFreeQuery\<close>, whether or not the source address is whitelisted; if
  the header is absent, it never invokes \<open>addPaidQuery\<close>, and it takes the free path
  when the source address is whitelisted.
\<close>

theorem C1_path_selection:
  assumes "newSubgraphDeploymentID ext (req_params_id req) = Inr sid"
  shows "(req_headers req ''x-graph-payment-id'' = Some (Str p) \<longrightarrow>
            handle_query ext opts req =
              paid_query ext opts sid p (body_toString (req_body req))
            \<and> length (paid_calls (events (handle_query ext opts req))) = 1
            \<and> free_calls (events (handle_query ext opts req)) = [])
         \<and> (req_headers req ''x-graph-payment-id'' = None \<longrightarrow>
            paid_calls (events (handle_query ext opts req)) = []
            \<and> (req_ip req \<in> set (whitelist opts) \<longrightarrow>
                 handle_query ext opts req =
                   free_query ext opts sid (req_headers req ''x-graph-state-channel-id'')
                     (body_toString (req_body req))))"
  using assms
  by (simp add: handle_query_paid handle_query_free paid_query_calls
      paid_calls_handle_query)

text \<open>A whitelisted caller who pays is charged; a whitelisted caller who does not is free.\<close>

theorem C1_path_selection_witness:
  "newSubgraphDeploymentID example_ext (req_params_id trusted_paid_request) = Inr example_id
   \<and> req_headers trusted_paid_request ''x-graph-payment-id'' = Some (Str ''pay-42'')
   \<and> req_ip trusted_paid_request \<in> set (whitelist example_opts)
   \<and> handle_query example_ext example_opts trusted_paid_request =
       paid_query example_ext example_opts example_id ''pay-42''
         (body_toString (req_body trusted_paid_request))
   \<and> length (paid_calls (events (handle_query example_ext example_opts trusted_paid_request))) = 1
   \<and> free_calls (events (handle_query example_ext example_opts trusted_paid_request)) = []
   \<and> newSubgraphDeploymentID example_ext (req_params_id free_request) = Inr example_id
   \<and> req_headers free_request ''x-graph-payment-id'' = None
   \<and> req_ip free_request \<in> set (whitelist example_opts)
   \<and> paid_calls (events (handle_query example_ext example_opts free_request)) = []
   \<and> handle_query example_ext example_opts free_request =
       free_query example_ext example_opts example_id
         (req_headers free_request ''x-graph-state-channel-id'')
         (body_toString (req_body free_request))"
proof -
  have a: "newSubgraphDeploymentID example_ext (req_params_id trusted_paid_request)
      = Inr example_id"
    by (simp add: example_requests example_accepts)
  have b: "req_headers trusted_paid_request ''x-graph-payment-id'' = Some (Str ''pay-42'')"
    by (simp add: example_requests)
  have c: "req_ip trusted_paid_request \<in> set (whitelist example_opts)"
    by (simp add: example_requests example_opts_def)
  have d: "newSubgraphDeploymentID example_ext (req_params_id free_request) = Inr example_id"
    by (simp add: example_requests example_accepts)
  have e: "req_headers free_request ''x-graph-payment-id'' = None"
    by (simp add: example_requests)
  have f: "req_ip free_request \<in> set (whitelist example_opts)"
    by (simp add: example_requests example_opts_def)
  from C1_path_selection [OF a, of "''pay-42''" example_opts]
    C1_path_selection [OF d, of "''pay-42''" example_opts] a b c d e f
  show ?thesis by blast
qed

subsection \<open>C2: a payment-ID header that is not a single string\<close>


subsection \<open>C3: payment is mandatory outside the whitelist\<close>

text \<open>
  C3 promises status 402 with the body \<open>{error: 'No X-Graph-Payment-ID provided'}\<close> to
  every request from outside the whitelist without a payment-ID header. The handler
  gives that answer whenever the constructor has accepted the id of the request
  (\<open>missing_payment_answered\<close>). It constructs the deployment ID first and without
  protection, however: for the path \<open>/subgraphs/id/Qm0\<close>, requested from outside the
  whitelist without the header, the constructor throws before the whitelist is
  consulted, the promise of the handler is rejected and no response is sent.
\<close>

theorem C3_invalid_id_unanswered:
  "req_ip invalid_id_bare_request \<notin> set (whitelist example_opts)
   \<and> req_headers invalid_id_bare_request ''x-graph-payment-id'' = None
   \<and> handle_query example_ext example_opts invalid_id_bare_request =
       \<lparr>events = [], promise = Rejected ''Non-base58 character''\<rparr>
   \<and> responses (events (handle_query example_ext example_opts invalid_id_bare_request)) = []"
proof -
  have "newSubgraphDeploymentID example_ext (req_params_id invalid_id_bare_request)
      = Inl ''Non-base58 character''"
    by (simp add: invalid_id_requests example_requests example_throws)
  then show ?thesis
    by (simp add: handle_query_throws)
       (simp add: invalid_id_requests example_requests example_opts_def)
qed

subsection \<open>C4: the state-channel ID on the free path\<close>



subsection \<open>C5: what the content identifier is computed from\<close>

text \<open>
  C5 as stated says that the identifier passed to the query processor is the hash of the
  raw bytes of the body. The handler hashes the UTF-8 encoding of the decoded body
  instead, and decoding replaces every ill-formed sequence by U+FFFD: for the body
  \<open>FF\<close> the bytes hashed are \<open>EF BF BD\<close>. With the injective stand-in for the hash the
  identifier differs from the one of the raw bytes.
\<close>

theorem C5_ill_formed_body_counterexample:
  "req_body ff_request = Buffer [0xFF]
   \<and> map pq_requestCID
        (paid_calls (events (handle_query example_ext example_opts ff_request)))
       = [keccak256 example_ext [0xEF, 0xBF, 0xBD]]
   \<and> keccak256 example_ext [0xEF, 0xBF, 0xBD] \<noteq> keccak256 example_ext [0xFF]"
proof -
  have "map pq_requestCID
      (paid_calls (events (handle_query example_ext example_opts ff_request)))
      = [keccak256 example_ext [0xEF, 0xBF, 0xBD]]"
    by (simp add: paid_calls_handle_query example_paid_requests example_bodies
        replacement_bytes)
  moreover have "keccak256 example_ext [0xEF, 0xBF, 0xBD] \<noteq> keccak256 example_ext [0xFF]"
    by (simp add: example_ext_def hexlify_def)
  ultimately show ?thesis by (simp add: example_bodies)
qed

text \<open>
  C5, amended. Whenever the query processor is invoked, on either path, the query it
  receives is the body decoded by \<open>toString\<close> and the identifier it receives is the hash
  of the UTF-8 encoding of that query; when the body is a buffer of well-formed UTF-8,
  this is the hash of the raw bytes of the body.
\<close>

theorem C5_request_cid:
  "(q \<in> set (paid_calls (events (handle_query ext opts req))) \<longrightarrow>
      pq_query q = body_toString (req_body req)
      \<and> pq_requestCID q = keccak256 ext (TextEncoder_encode (pq_query q))
      \<and> (list_all scalar cs \<and> req_body req = Buffer (utf8_encode cs) \<longrightarrow>
           pq_requestCID q = keccak256 ext (utf8_encode cs)))
   \<and> (q' \<in> set (free_calls (events (handle_query ext opts req))) \<longrightarrow>
      fq_query q' = body_toString (req_body req)
      \<and> fq_requestCID q' = keccak256 ext (TextEncoder_encode (fq_query q'))
      \<and> (list_all scalar cs \<and> req_body req = Buffer (utf8_encode cs) \<longrightarrow>
           fq_requestCID q' = keccak256 ext (utf8_encode cs)))"
proof -
  have w: "TextEncoder_encode (body_toString (req_body req)) = utf8_encode cs"
    if "list_all scalar cs" "req_body req = Buffer (utf8_encode cs)"
    using that by (simp add: encode_toString_wellformed)
  have "pq_query q = body_toString (req_body req)
      \<and> pq_requestCID q = keccak256 ext (TextEncoder_encode (body_toString (req_body req)))"
    if "q \<in> set (paid_calls (events (handle_query ext opts req)))"
    using paid_calls_member [OF that] by auto
  moreover have "fq_query q' = body_toString (req_body req)
      \<and> fq_requestCID q' = keccak256 ext (TextEncoder_encode (body_toString (req_body req)))"
    if "q' \<in> set (free_calls (events (handle_query ext opts req)))"
    using free_calls_member [OF that] by auto
  ultimately show ?thesis using w by auto
qed

text \<open>A paid query with text beyond ASCII and a free query in ASCII.\<close>

theorem C5_request_cid_witness:
  "unicode_paid_query
     \<in> set (paid_calls (events (handle_query example_ext example_opts unicode_request)))
   \<and> list_all scalar [0x7B, 0xE9, 0x20AC, 0x1F600, 0x7D]
   \<and> req_body unicode_request = Buffer (utf8_encode [0x7B, 0xE9, 0x20AC, 0x1F600, 0x7D])
   \<and> pq_query unicode_paid_query = body_toString (req_body unicode_request)
   \<and> pq_requestCID unicode_paid_query
       = keccak256 example_ext (utf8_encode [0x7B, 0xE9, 0x20AC, 0x1F600, 0x7D])
   \<and> example_free_query
     \<in> set (free_calls (events (handle_query example_ext example_opts free_request)))
   \<and> list_all scalar (map of_char ''{ tokens { id } }'')
   \<and> req_body free_request = Buffer (utf8_encode (map of_char ''{ tokens { id } }''))
   \<and> fq_query example_free_query = body_toString (req_body free_request)
   \<and> fq_requestCID example_free_query
       = keccak256 example_ext (utf8_encode (map of_char ''{ tokens { id } }''))"
proof -
  have a: "unicode_paid_query
      \<in> set (paid_calls (events (handle_query example_ext example_opts unicode_request)))"
    by (simp add: example_paid_calls)
  have b: "example_free_query
      \<in> set (free_calls (events (handle_query example_ext example_opts free_request)))"
    by (simp add: example_free_calls example_whitelists)
  note w = example_bodies_wellformed
  note e = example_bodies
  from C5_request_cid [of unicode_paid_query example_ext example_opts unicode_request
      "[0x7B, 0xE9, 0x20AC, 0x1F600, 0x7D]" example_free_query] a w(3) e(4)
  have r1: "pq_query unicode_paid_query = body_toString (req_body unicode_request)
      \<and> pq_requestCID unicode_paid_query
        = keccak256 example_ext (utf8_encode [0x7B, 0xE9, 0x20AC, 0x1F600, 0x7D])"
    by blast
  from C5_request_cid [of unicode_paid_query example_ext example_opts free_request
      "map of_char ''{ tokens { id } }''" example_free_query] b w(2) e(3)
  have r2: "fq_query example_free_query = body_toString (req_body free_request)
      \<and> fq_requestCID example_free_query
        = keccak256 example_ext (utf8_encode (map of_char ''{ tokens { id } }''))"
    by blast
  from a b w(2) w(3) e(3) e(4) r1 r2 show ?thesis by blast
qed

subsection \<open>C6: from the outcome of the processor to the response\<close>

text \<open>
  C6 as stated says that the response carries the status of the processor's result
  whenever that status is set. A status that is set to 0 is not passed on: the response
  has status 200.
\<close>

theorem C6_zero_status_counterexample:
  "map (addPaidQuery (queryProcessor zero_status_opts))
       (paid_calls (events (handle_query example_ext zero_status_opts paid_request)))
     = [Returns \<lparr>status = Some 0, result = ''{data: []}''\<rparr>]
   \<and> map resp_status (responses (events (handle_query example_ext zero_status_opts paid_request)))
     = [200]"
proof -
  have "map resp_status
      (responses (events (handle_query example_ext zero_status_opts paid_request))) = [200]"
    by (simp add: handle_query_paid [OF example_paid_requests(1) example_paid_requests(6)]
        paid_query_answer example_processors answer_responses valid_status_defaults
        json_response_defaults)
  then show ?thesis by (simp add: example_paid_calls example_processors)
qed

text \<open>
  C6, amended. For every dispatched request, paid or free, the response is determined by
  the outcome of the call of the processor and its status.

  If the processor returns a result: when the status is unset or 0, the response has
  status 200, the JSON content type and the result as payload; when the status is from
  200 to 999 and none of 204, 205 and 304, the response has that status, the JSON
  content type and the result as payload; when the status is 204 or 304, the response
  has that status and neither a content type nor a body; when the status is another
  32-bit integer below 100 or above 999, the response has status 500, the JSON content
  type and the body \<open>{error: 'Invalid status code: n'}\<close>, where \<open>n\<close> is the status.

  If the processor throws: when the status of the error is unset or 0, the response has
  status 500, the JSON content type and the body \<open>{error: message}\<close>; when it is from
  200 to 999 and none of 204, 205 and 304, the response has that status, the JSON
  content type and the body \<open>{error: message}\<close>; when it is 204 or 304, the response
  has that status and neither a content type nor a body.
\<close>

theorem C6_outcome_mapping:
  assumes "q \<in> set (paid_calls (events (handle_query ext opts req)))
             \<and> addPaidQuery (queryProcessor opts) q = out
           \<or> q' \<in> set (free_calls (events (handle_query ext opts req)))
             \<and> addFreeQuery (queryProcessor opts) q' = out"
  shows "(out = Returns \<lparr>status = st, result = res\<rparr> \<longrightarrow>
            (st = None \<or> st = Some 0 \<longrightarrow>
               responses (events (handle_query ext opts req)) =
                 [\<lparr>resp_status = 200, resp_contentType = Some ''application/json'',
                   resp_payload = Some (Result res)\<rparr>])
            \<and> (st = Some n \<and> 200 \<le> n \<and> n \<le> 999
                 \<and> n \<noteq> 204 \<and> n \<noteq> 205 \<and> n \<noteq> 304 \<longrightarrow>
               responses (events (handle_query ext opts req)) =
                 [\<lparr>resp_status = n, resp_contentType = Some ''application/json'',
                   resp_payload = Some (Result res)\<rparr>])
            \<and> (st = Some n \<and> (n = 204 \<or> n = 304) \<longrightarrow>
               responses (events (handle_query ext opts req)) =
                 [\<lparr>resp_status = n, resp_contentType = None, resp_payload = None\<rparr>])
            \<and> (st = Some n \<and> n \<noteq> 0 \<and> (n < 100 \<or> 999 < n)
                 \<and> - 2147483648 \<le> n \<and> n < 2147483648 \<longrightarrow>
               responses (events (handle_query ext opts req)) =
                 [\<lparr>resp_status = 500, resp_contentType = Some ''application/json'',
                   resp_payload =
                     Some (ErrorObject (''Invalid status code: '' @ number_toString n))\<rparr>]))
         \<and> (out = Throws \<lparr>err_status = st, err_message = msg\<rparr> \<longrightarrow>
            (st = None \<or> st = Some 0 \<longrightarrow>
               responses (events (handle_query ext opts req)) =
                 [\<lparr>resp_status = 500, resp_contentType = Some ''application/json'',
                   resp_payload = Some (ErrorObject msg)\<rparr>])
            \<and> (st = Some n \<and> 200 \<le> n \<and> n \<le> 999
                 \<and> n \<noteq> 204 \<and> n \<noteq> 205 \<and> n \<noteq> 304 \<longrightarrow>
               responses (events (handle_query ext opts req)) =
                 [\<lparr>resp_status = n, resp_contentType = Some ''application/json'',
                   resp_payload = Some (ErrorObject msg)\<rparr>])
            \<and> (st = Some n \<and> (n = 204 \<or> n = 304) \<longrightarrow>
               responses (events (handle_query ext opts req)) =
                 [\<lparr>resp_status = n, resp_contentType = None, resp_payload = None\<rparr>]))"
proof -
  note ret = call_responses(1) [OF assms, of "\<lparr>status = st, result = res\<rparr>"]
  note thr = call_responses(2) [OF assms, of "\<lparr>err_status = st, err_message = msg\<rparr>"]
  have v: "valid_status n" if "100 \<le> n" "n \<le> 999"
    using that by (simp add: valid_status_codes)
  have i: "\<not> valid_status n" if "n < 100 \<or> 999 < n" "- 2147483648 \<le> n" "n < 2147483648"
    using that by (auto simp: valid_status_small)
  have m: "err_message (invalid_status_code n) = ''Invalid status code: '' @ number_toString n"
    by (simp add: invalid_status_code_def)
  have e: "valid_status 204" "valid_status 304"
    by (simp_all add: valid_status_codes)
  show ?thesis
    using ret thr
    by (auto simp: v i m e valid_status_defaults json_response_defaults json_response_plain
        json_response_no_content)
qed

text \<open>
  The scenarios of the specification: a paid query that the processor rejects with 429,
  a free query answered without a status. Then the two outcomes with status 0, with
  status 204 and 304, and a result with status 1000.
\<close>

theorem C6_outcome_mapping_witness:
  "example_paid_query
     \<in> set (paid_calls (events (handle_query example_ext example_opts paid_request)))
   \<and> addPaidQuery (queryProcessor example_opts) example_paid_query
       = Throws \<lparr>err_status = Some 429, err_message = ''rate limited''\<rparr>
   \<and> responses (events (handle_query example_ext example_opts paid_request)) =
       [\<lparr>resp_status = 429, resp_contentType = Some ''application/json'',
         resp_payload = Some (ErrorObject ''rate limited'')\<rparr>]
   \<and> example_free_query
     \<in> set (free_calls (events (handle_query example_ext example_opts free_request)))
   \<and> addFreeQuery (queryProcessor example_opts) example_free_query
       = Returns \<lparr>status = None, result = ''{data: []}''\<rparr>
   \<and> responses (events (handle_query example_ext example_opts free_request)) =
       [\<lparr>resp_status = 200, resp_contentType = Some ''application/json'',
         resp_payload = Some (Result ''{data: []}'')\<rparr>]
   \<and> example_paid_query
     \<in> set (paid_calls (events (handle_query example_ext zero_status_opts paid_request)))
   \<and> addPaidQuery (queryProcessor zero_status_opts) example_paid_query
       = Returns \<lparr>status = Some 0, result = ''{data: []}''\<rparr>
   \<and> responses (events (handle_query example_ext zero_status_opts paid_request)) =
       [\<lparr>resp_status = 200, resp_contentType = Some ''application/json'',
         resp_payload = Some (Result ''{data: []}'')\<rparr>]
   \<and> example_free_query
     \<in> set (free_calls (events (handle_query example_ext zero_status_opts free_request)))
   \<and> addFreeQuery (queryProcessor zero_status_opts) example_free_query
       = Throws \<lparr>err_status = Some 0, err_message = ''failed''\<rparr>
   \<and> responses (events (handle_query example_ext zero_status_opts free_request)) =
       [\<lparr>resp_status = 500, resp_contentType = Some ''application/json'',
         resp_payload = Some (ErrorObject ''failed'')\<rparr>]
   \<and> example_paid_query
     \<in> set (paid_calls (events (handle_query example_ext no_content_opts paid_request)))
   \<and> addPaidQuery (queryProcessor no_content_opts) example_paid_query
       = Throws \<lparr>err_status = Some 304, err_message = ''failed''\<rparr>
   \<and> responses (events (handle_query example_ext no_content_opts paid_request)) =
       [\<lparr>resp_status = 304, resp_contentType = None, resp_payload = None\<rparr>]
   \<and> example_free_query
     \<in> set (free_calls (events (handle_query example_ext no_content_opts free_request)))
   \<and> addFreeQuery (queryProcessor no_content_opts) example_free_query
       = Returns \<lparr>status = Some 204, result = ''{data: []}''\<rparr>
   \<and> responses (events (handle_query example_ext no_content_opts free_request)) =
       [\<lparr>resp_status = 204, resp_contentType = None, resp_payload = None\<rparr>]
   \<and> example_free_query
     \<in> set (free_calls (events (handle_query example_ext invalid_status_opts free_request)))
   \<and> addFreeQuery (queryProcessor invalid_status_opts) example_free_query
       = Returns \<lparr>status = Some 1000, result = ''{data: []}''\<rparr>
   \<and> responses (events (handle_query example_ext invalid_status_opts free_request)) =
       [\<lparr>resp_status = 500, resp_contentType = Some ''application/json'',
         resp_payload = Some (ErrorObject ''Invalid status code: 1000'')\<rparr>]"
proof -
  have a: "example_paid_query
      \<in> set (paid_calls (events (handle_query example_ext opts paid_request)))" for opts
    by (simp add: example_paid_calls)
  have b: "example_free_query
      \<in> set (free_calls (events (handle_query example_ext example_opts free_request)))"
    "example_free_query
      \<in> set (free_calls (events (handle_query example_ext zero_status_opts free_request)))"
    "example_free_query
      \<in> set (free_calls (events (handle_query example_ext no_content_opts free_request)))"
    "example_free_query
      \<in> set (free_calls (events (handle_query example_ext invalid_status_opts free_request)))"
    by (simp_all add: example_free_calls example_whitelists)
  note p = example_processors
  have n: "number_toString 1000 = ''1000''"
    by (simp add: number_toString_def decimal_digits.simps)
  from C6_outcome_mapping [where q = example_paid_query and q' = example_free_query
      and ext = example_ext and opts = example_opts and req = paid_request
      and out = "Throws \<lparr>err_status = Some 429, err_message = ''rate limited''\<rparr>"
      and st = "Some 429" and msg = "''rate limited''" and n = 429]
    a [of example_opts] p(1) [of example_paid_query]
  have r1: "responses (events (handle_query example_ext example_opts paid_request)) =
       [\<lparr>resp_status = 429, resp_contentType = Some ''application/json'',
         resp_payload = Some (ErrorObject ''rate limited'')\<rparr>]"
    by simp
  from C6_outcome_mapping [where q = example_paid_query and q' = example_free_query
      and ext = example_ext and opts = example_opts and req = free_request
      and out = "Returns \<lparr>status = None, result = ''{data: []}''\<rparr>"
      and st = None and res = "''{data: []}''"]
    b(1) p(2) [of example_free_query]
  have r2: "responses (events (handle_query example_ext example_opts free_request)) =
       [\<lparr>resp_status = 200, resp_contentType = Some ''application/json'',
         resp_payload = Some (Result ''{data: []}'')\<rparr>]"
    by simp
  from C6_outcome_mapping [where q = example_paid_query and q' = example_free_query
      and ext = example_ext and opts = zero_status_opts and req = paid_request
      and out = "Returns \<lparr>status = Some 0, result = ''{data: []}''\<rparr>"
      and st = "Some 0" and res = "''{data: []}''"]
    a [of zero_status_opts] p(3) [of example_paid_query]
  have r3: "responses (events (handle_query example_ext zero_status_opts paid_request)) =
       [\<lparr>resp_status = 200, resp_contentType = Some ''application/json'',
         resp_payload = Some (Result ''{data: []}'')\<rparr>]"
    by simp
  from C6_outcome_mapping [where q = example_paid_query and q' = example_free_query
      and ext = example_ext and opts = zero_status_opts and req = free_request
      and out = "Throws \<lparr>err_status = Some 0, err_message = ''failed''\<rparr>"
      and st = "Some 0" and msg = "''failed''"]
    b(2) p(4) [of example_free_query]
  have r4: "responses (events (handle_query example_ext zero_status_opts free_request)) =
       [\<lparr>resp_status = 500, resp_contentType = Some ''application/json'',
         resp_payload = Some (ErrorObject ''failed'')\<rparr>]"
    by simp
  from C6_outcome_mapping [where q = example_paid_query and q' = example_free_query
      and ext = example_ext and opts = no_content_opts and req = paid_request
      and out = "Throws \<lparr>err_status = Some 304, err_message = ''failed''\<rparr>"
      and st = "Some 304" and msg = "''failed''" and n = 304]
    a [of no_content_opts] p(9) [of example_paid_query]
  have r5: "responses (events (handle_query example_ext no_content_opts paid_request)) =
       [\<lparr>resp_status = 304, resp_contentType = None, resp_payload = None\<rparr>]"
    by simp
  from C6_outcome_mapping [where q = example_paid_query and q' = example_free_query
      and ext = example_ext and opts = no_content_opts and req = free_request
      and out = "Returns \<lparr>status = Some 204, result = ''{data: []}''\<rparr>"
      and st = "Some 204" and res = "''{data: []}''" and n = 204]
    b(3) p(10) [of example_free_query]
  have r6: "responses (events (handle_query example_ext no_content_opts free_request)) =
       [\<lparr>resp_status = 204, resp_contentType = None, resp_payload = None\<rparr>]"
    by simp
  from C6_outcome_mapping [where q = example_paid_query and q' = example_free_query
      and ext = example_ext and opts = invalid_status_opts and req = free_request
      and out = "Returns \<lparr>status = Some 1000, result = ''{data: []}''\<rparr>"
      and st = "Some 1000" and res = "''{data: []}''" and n = 1000]
    b(4) p(8) [of example_free_query] n
  have r7: "responses (events (handle_query example_ext invalid_status_opts free_request)) =
       [\<lparr>resp_status = 500, resp_contentType = Some ''application/json'',
         resp_payload = Some (ErrorObject ''Invalid status code: 1000'')\<rparr>]"
    by simp
  from a [of example_opts] a [of zero_status_opts] a [of no_content_opts] b
    r1 r2 r3 r4 r5 r6 r7
    p(1) [of example_paid_query] p(2) [of example_free_query]
    p(3) [of example_paid_query] p(4) [of example_free_query]
    p(9) [of example_paid_query] p(10) [of example_free_query] p(8) [of example_free_query]
  show ?thesis by blast
qed

subsection \<open>C7: equal and distinct bodies\<close>

text \<open>
  C7 as stated says that distinct byte sequences get distinct identifiers, up to the
  collisions of the hash. Decoding the body comes first and is not injective: the bodies
  \<open>FF\<close> and \<open>FE\<close> are distinct, both decode to U+FFFD, and both get the identifier of
  the bytes \<open>EF BF BD\<close>, whatever the hash function is.
\<close>

theorem C7_distinct_bodies_counterexample:
  "req_body ff_request = Buffer [0xFF] \<and> req_body fe_request = Buffer [0xFE]
   \<and> req_body ff_request \<noteq> req_body fe_request
   \<and> request_cids (events (handle_query example_ext example_opts ff_request))
       = [keccak256 example_ext [0xEF, 0xBF, 0xBD]]
   \<and> request_cids (events (handle_query example_ext example_opts fe_request))
       = [keccak256 example_ext [0xEF, 0xBF, 0xBD]]"
  by (simp add: example_request_cids example_bodies replacement_bytes)

text \<open>
  C7, amended. The identifier is a function of the body alone: two requests with the
  same body get the same identifier, whatever their headers, addresses and processors.
  Two requests whose bodies are buffers of well-formed UTF-8 get the hashes of their raw
  bytes, and distinct texts have distinct raw bytes; their identifiers then differ unless
  the hash function itself collides on the two bodies.
\<close>

theorem C7_identifier_of_body:
  "(req_body r1 = req_body r2
      \<and> c1 \<in> set (request_cids (events (handle_query ext opts1 r1)))
      \<and> c2 \<in> set (request_cids (events (handle_query ext opts2 r2))) \<longrightarrow> c1 = c2)
   \<and> (list_all scalar cs1 \<and> list_all scalar cs2
      \<and> req_body r1 = Buffer (utf8_encode cs1) \<and> req_body r2 = Buffer (utf8_encode cs2)
      \<and> c1 \<in> set (request_cids (events (handle_query ext opts1 r1)))
      \<and> c2 \<in> set (request_cids (events (handle_query ext opts2 r2))) \<longrightarrow>
      c1 = keccak256 ext (utf8_encode cs1) \<and> c2 = keccak256 ext (utf8_encode cs2)
      \<and> (cs1 \<noteq> cs2 \<longrightarrow> utf8_encode cs1 \<noteq> utf8_encode cs2))"
proof -
  have inj: "utf8_encode cs1 \<noteq> utf8_encode cs2"
    if "list_all scalar cs1" "list_all scalar cs2" "cs1 \<noteq> cs2"
  proof
    assume "utf8_encode cs1 = utf8_encode cs2"
    then have "utf8_decode (utf8_encode cs1) = utf8_decode (utf8_encode cs2)" by simp
    with that show False by (simp add: utf8_decode_encode)
  qed
  show ?thesis
    using inj
    by (auto dest!: request_cids_handle_query simp: encode_toString_wellformed)
qed

text \<open>
  The same body from two addresses and two processors; and two distinct well-formed
  bodies.
\<close>

theorem C7_identifier_of_body_witness:
  "req_body paid_request = req_body trusted_paid_request
   \<and> keccak256 example_ext (TextEncoder_encode (body_toString (req_body paid_request)))
       \<in> set (request_cids (events (handle_query example_ext example_opts paid_request)))
   \<and> keccak256 example_ext (TextEncoder_encode (body_toString (req_body trusted_paid_request)))
       \<in> set (request_cids (events (handle_query example_ext zero_status_opts
            trusted_paid_request)))
   \<and> keccak256 example_ext (TextEncoder_encode (body_toString (req_body paid_request)))
       = keccak256 example_ext
           (TextEncoder_encode (body_toString (req_body trusted_paid_request)))
   \<and> list_all scalar (map of_char ''{ pools { id } }'')
   \<and> list_all scalar [0x7B, 0xE9, 0x20AC, 0x1F600, 0x7D]
   \<and> req_body paid_request = Buffer (utf8_encode (map of_char ''{ pools { id } }''))
   \<and> req_body unicode_request = Buffer (utf8_encode [0x7B, 0xE9, 0x20AC, 0x1F600, 0x7D])
   \<and> keccak256 example_ext (TextEncoder_encode (body_toString (req_body unicode_request)))
       \<in> set (request_cids (events (handle_query example_ext example_opts unicode_request)))
   \<and> keccak256 example_ext (TextEncoder_encode (body_toString (req_body paid_request)))
       = keccak256 example_ext (utf8_encode (map of_char ''{ pools { id } }''))
   \<and> keccak256 example_ext (TextEncoder_encode (body_toString (req_body unicode_request)))
       = keccak256 example_ext (utf8_encode [0x7B, 0xE9, 0x20AC, 0x1F600, 0x7D])
   \<and> map of_char ''{ pools { id } }'' \<noteq> [0x7B, 0xE9, 0x20AC, 0x1F600, 0x7D :: nat]
   \<and> utf8_encode (map of_char ''{ pools { id } }'')
       \<noteq> utf8_encode [0x7B, 0xE9, 0x20AC, 0x1F600, 0x7D]"
proof -
  let ?c1 = "keccak256 example_ext (TextEncoder_encode (body_toString (req_body paid_request)))"
  let ?c2 = "keccak256 example_ext
    (TextEncoder_encode (body_toString (req_body trusted_paid_request)))"
  let ?c3 = "keccak256 example_ext
    (TextEncoder_encode (body_toString (req_body unicode_request)))"
  have same: "req_body paid_request = req_body trusted_paid_request"
    by (simp add: example_bodies)
  have m1: "?c1 \<in> set (request_cids (events (handle_query example_ext example_opts paid_request)))"
    and m2: "?c2 \<in> set (request_cids (events (handle_query example_ext zero_status_opts
            trusted_paid_request)))"
    and m3: "?c3 \<in> set (request_cids (events (handle_query example_ext example_opts
            unicode_request)))"
    by (simp_all add: example_request_cids)
  have ne: "map of_char ''{ pools { id } }'' \<noteq> [0x7B, 0xE9, 0x20AC, 0x1F600, 0x7D :: nat]"
    by simp
  note w = example_bodies_wellformed
  note e = example_bodies
  from C7_identifier_of_body [of paid_request trusted_paid_request ?c1 example_ext example_opts
      ?c2 zero_status_opts] same m1 m2
  have r1: "?c1 = ?c2" by blast
  from C7_identifier_of_body [of paid_request unicode_request ?c1 example_ext example_opts
      ?c3 example_opts "map of_char ''{ pools { id } }''" "[0x7B, 0xE9, 0x20AC, 0x1F600, 0x7D]"]
    w(1) w(3) e(1) e(4) m1 m3 ne
  have r2: "?c1 = keccak256 example_ext (utf8_encode (map of_char ''{ pools { id } }''))
      \<and> ?c3 = keccak256 example_ext (utf8_encode [0x7B, 0xE9, 0x20AC, 0x1F600, 0x7D])
      \<and> utf8_encode (map of_char ''{ pools { id } }'')
          \<noteq> utf8_encode [0x7B, 0xE9, 0x20AC, 0x1F600, 0x7D]"
    by blast
  from same m1 m2 m3 ne w(1) w(3) e(1) e(4) r1 r2 show ?thesis by blast
qed

subsection \<open>C8: one response for every request\<close>

text \<open>
  C8 says that the handler answers every request with exactly one response and lets no
  error escape. Two statements of the handler stand outside every \<open>try\<close> block and
  can throw. The first is the call of the constructor: for the path
  \<open>/subgraphs/id/Qm0\<close> it throws, and the handler has sent nothing when its promise is
  rejected. The second is the write in a \<open>catch\<close> block: when the processor throws an
  error with status 1000, the write of the error response throws in turn, and again the
  handler has sent nothing when its promise is rejected. Both requests stay unanswered.
\<close>

theorem C8_unanswered_requests:
  "handle_query example_ext example_opts invalid_id_request =
     \<lparr>events = [], promise = Rejected ''Non-base58 character''\<rparr>
   \<and> responses (events (handle_query example_ext example_opts invalid_id_request)) = []
   \<and> handle_query example_ext invalid_status_opts paid_request =
     \<lparr>events = [Log Info (ReceivedPaidQuery example_id ''pay-42''),
                CallPaid example_paid_query,
                Log Error (FailedPaidQuery \<lparr>err_status = Some 1000, err_message = ''failed''\<rparr>)],
      promise = Rejected ''Invalid status code: 1000''\<rparr>
   \<and> responses (events (handle_query example_ext invalid_status_opts paid_request)) = []"
proof -
  have "newSubgraphDeploymentID example_ext (req_params_id invalid_id_request)
      = Inl ''Non-base58 character''"
    by (simp add: example_requests example_throws)
  then have a: "handle_query example_ext example_opts invalid_id_request =
      \<lparr>events = [], promise = Rejected ''Non-base58 character''\<rparr>"
    by (simp add: handle_query_throws)
  have b: "handle_query example_ext invalid_status_opts paid_request =
      \<lparr>events = [Log Info (ReceivedPaidQuery example_id ''pay-42''),
                 CallPaid example_paid_query,
                 Log Error (FailedPaidQuery \<lparr>err_status = Some 1000, err_message = ''failed''\<rparr>)],
       promise = Rejected ''Invalid status code: 1000''\<rparr>"
    by (simp add: handle_query_paid [OF example_paid_requests(1) example_paid_requests(6)]
        paid_query_def example_processors answer_throws caught_invalid invalid_status_1000
        preceded_def example_paid_query_def)
  show ?thesis by (simp add: a b)
qed

subsection \<open>C9: the state-channel ID off the free path\<close>

text \<open>
  C9. The state-channel-ID header is read on the free path only. For a request that has
  a payment-ID header, or comes from outside the whitelist, replacing the
  state-channel-ID header by anything (nothing, an array, another string) leaves the
  whole run as it is, response included. In particular a request with a single-string
  payment-ID header whose id the constructor accepts is dispatched on the paid path
  whatever that header is.
\<close>

theorem C9_state_channel_header_unread:
  "(req_headers req ''x-graph-payment-id'' \<noteq> None \<or> req_ip req \<notin> set (whitelist opts) \<longrightarrow>
      handle_query ext opts
        (req\<lparr>req_headers := (req_headers req)(''x-graph-state-channel-id'' := h)\<rparr>)
      = handle_query ext opts req)
   \<and> (req_headers req ''x-graph-payment-id'' = Some (Str p)
      \<and> newSubgraphDeploymentID ext (req_params_id req) = Inr sid \<longrightarrow>
      handle_query ext opts
        (req\<lparr>req_headers := (req_headers req)(''x-graph-state-channel-id'' := h)\<rparr>)
      = paid_query ext opts sid p (body_toString (req_body req)))"
  by (auto simp: handle_query_def Let_def split: sum.splits option.splits header_value.splits)

text \<open>A paying request with the state-channel-ID header sent twice, and sent once.\<close>

theorem C9_state_channel_header_unread_witness:
  "req_headers paid_request ''x-graph-payment-id'' = Some (Str ''pay-42'')
   \<and> newSubgraphDeploymentID example_ext (req_params_id paid_request) = Inr example_id
   \<and> handle_query example_ext example_opts
        (paid_request\<lparr>req_headers :=
           (req_headers paid_request)(''x-graph-state-channel-id'' := Some (Arr [''a'', ''b'']))\<rparr>)
      = handle_query example_ext example_opts paid_request
   \<and> handle_query example_ext example_opts
        (paid_request\<lparr>req_headers :=
           (req_headers paid_request)(''x-graph-state-channel-id'' := Some (Str ''sc-1''))\<rparr>)
      = handle_query example_ext example_opts paid_request
   \<and> handle_query example_ext example_opts
        (paid_request\<lparr>req_headers :=
           (req_headers paid_request)(''x-graph-state-channel-id'' := Some (Arr [''a'', ''b'']))\<rparr>)
      = paid_query example_ext example_opts example_id ''pay-42''
          (body_toString (req_body paid_request))"
proof -
  have a: "req_headers paid_request ''x-graph-payment-id'' = Some (Str ''pay-42'')"
    and b: "newSubgraphDeploymentID example_ext (req_params_id paid_request) = Inr example_id"
    by (simp_all add: example_paid_requests)
  from a have a': "req_headers paid_request ''x-graph-payment-id'' \<noteq> None" by simp
  from C9_state_channel_header_unread [of paid_request example_opts example_ext
      "Some (Arr [''a'', ''b''])" "''pay-42''" example_id]
    C9_state_channel_header_unread [of paid_request example_opts example_ext
      "Some (Str ''sc-1'')" "''pay-42''" example_id] a a' b
  show ?thesis by blast
qed

subsection \<open>C10: a status that is set to 0\<close>

text \<open>
  C10. Whether a status is set is decided by its truth value, not by its presence. For
  every dispatched request, a result of the processor whose status is 0 (or unset) is
  answered with status 200, and an error of the processor whose status is 0 (or unset)
  with status 500.
\<close>

theorem C10_falsy_status:
  "(q \<in> set (paid_calls (events (handle_query ext opts req)))
      \<and> addPaidQuery (queryProcessor opts) q = Returns response
      \<and> (status response = None \<or> status response = Some 0) \<longrightarrow>
    map resp_status (responses (events (handle_query ext opts req))) = [200])
   \<and> (q \<in> set (paid_calls (events (handle_query ext opts req)))
      \<and> addPaidQuery (queryProcessor opts) q = Throws e
      \<and> (err_status e = None \<or> err_status e = Some 0) \<longrightarrow>
    map resp_status (responses (events (handle_query ext opts req))) = [500])
   \<and> (q' \<in> set (free_calls (events (handle_query ext opts req)))
      \<and> addFreeQuery (queryProcessor opts) q' = Returns response
      \<and> (status response = None \<or> status response = Some 0) \<longrightarrow>
    map resp_status (responses (events (handle_query ext opts req))) = [200])
   \<and> (q' \<in> set (free_calls (events (handle_query ext opts req)))
      \<and> addFreeQuery (queryProcessor opts) q' = Throws e
      \<and> (err_status e = None \<or> err_status e = Some 0) \<longrightarrow>
    map resp_status (responses (events (handle_query ext opts req))) = [500])"
proof -
  let ?R = "map resp_status (responses (events (handle_query ext opts req)))"
  have ok: "?R = [200]"
    if "q \<in> set (paid_calls (events (handle_query ext opts req)))
          \<and> addPaidQuery (queryProcessor opts) q = Returns response
        \<or> q' \<in> set (free_calls (events (handle_query ext opts req)))
          \<and> addFreeQuery (queryProcessor opts) q' = Returns response"
      and "status response = None \<or> status response = Some 0"
    using call_responses(1) [OF that(1), of response] that(2)
    by (auto simp: valid_status_defaults json_response_defaults)
  have err: "?R = [500]"
    if "q \<in> set (paid_calls (events (handle_query ext opts req)))
          \<and> addPaidQuery (queryProcessor opts) q = Throws e
        \<or> q' \<in> set (free_calls (events (handle_query ext opts req)))
          \<and> addFreeQuery (queryProcessor opts) q' = Throws e"
      and "err_status e = None \<or> err_status e = Some 0"
    using call_responses(2) [OF that(1), of e] that(2)
    by (auto simp: valid_status_defaults json_response_defaults)
  show ?thesis using ok err by blast
qed

text \<open>Status 0 on each path, returned and thrown.\<close>

theorem C10_falsy_status_witness:
  "example_paid_query
     \<in> set (paid_calls (events (handle_query example_ext zero_status_opts paid_request)))
   \<and> addPaidQuery (queryProcessor zero_status_opts) example_paid_query
       = Returns \<lparr>status = Some 0, result = ''{data: []}''\<rparr>
   \<and> map resp_status (responses (events (handle_query example_ext zero_status_opts paid_request)))
     = [200]
   \<and> example_free_query
     \<in> set (free_calls (events (handle_query example_ext zero_status_opts free_request)))
   \<and> addFreeQuery (queryProcessor zero_status_opts) example_free_query
       = Throws \<lparr>err_status = Some 0, err_message = ''failed''\<rparr>
   \<and> map resp_status (responses (events (handle_query example_ext zero_status_opts free_request)))
     = [500]
   \<and> example_paid_query
     \<in> set (paid_calls (events (handle_query example_ext swapped_zero_status_opts paid_request)))
   \<and> addPaidQuery (queryProcessor swapped_zero_status_opts) example_paid_query
       = Throws \<lparr>err_status = Some 0, err_message = ''failed''\<rparr>
   \<and> map resp_status
        (responses (events (handle_query example_ext swapped_zero_status_opts paid_request)))
     = [500]
   \<and> example_free_query
     \<in> set (free_calls (events (handle_query example_ext swapped_zero_status_opts free_request)))
   \<and> addFreeQuery (queryProcessor swapped_zero_status_opts) example_free_query
       = Returns \<lparr>status = Some 0, result = ''{data: []}''\<rparr>
   \<and> map resp_status
        (responses (events (handle_query example_ext swapped_zero_status_opts free_request)))
     = [200]"
proof -
  let ?ok = "\<lparr>status = Some 0, result = ''{data: []}''\<rparr>"
  let ?err = "\<lparr>err_status = Some 0, err_message = ''failed''\<rparr>"
  have a: "example_paid_query
      \<in> set (paid_calls (events (handle_query example_ext zero_status_opts paid_request)))"
    and a': "example_paid_query
      \<in> set (paid_calls (events (handle_query example_ext swapped_zero_status_opts
        paid_request)))"
    by (simp_all add: example_paid_calls)
  have b: "example_free_query
      \<in> set (free_calls (events (handle_query example_ext zero_status_opts free_request)))"
    and b': "example_free_query
      \<in> set (free_calls (events (handle_query example_ext swapped_zero_status_opts
        free_request)))"
    by (simp_all add: example_free_calls example_whitelists)
  have s: "status ?ok = Some 0" "err_status ?err = Some 0" by simp_all
  note p = example_processors
  note p3 = p(3) [of example_paid_query] and p4 = p(4) [of example_free_query]
    and p5 = p(5) [of example_paid_query] and p6 = p(6) [of example_free_query]
  from C10_falsy_status [of example_paid_query example_ext zero_status_opts paid_request
      ?ok ?err example_free_query] a p3 s
  have r1: "map resp_status
      (responses (events (handle_query example_ext zero_status_opts paid_request))) = [200]"
    by blast
  from C10_falsy_status [of example_paid_query example_ext zero_status_opts free_request
      ?ok ?err example_free_query] b p4 s
  have r2: "map resp_status
      (responses (events (handle_query example_ext zero_status_opts free_request))) = [500]"
    by blast
  from C10_falsy_status [of example_paid_query example_ext swapped_zero_status_opts
      paid_request ?ok ?err example_free_query] a' p5 s
  have r3: "map resp_status
      (responses (events (handle_query example_ext swapped_zero_status_opts paid_request)))
      = [500]"
    by blast
  from C10_falsy_status [of example_paid_query example_ext swapped_zero_status_opts
      free_request ?ok ?err example_free_query] b' p6 s
  have r4: "map resp_status
      (responses (events (handle_query example_ext swapped_zero_status_opts free_request)))
      = [200]"
    by blast
  from a a' b b' p3 p4 p5 p6 r1 r2 r3 r4 show ?thesis by blast
qed

end
